theory Spec2Isabelle
  imports Main "HOL-Library.Sublist"
begin

section \<open>Text\<close>

text \<open>
  A Python \<open>str\<close> is modelled as a \<open>string\<close>: a list of characters, each standing for
  the code point of the same number (so the model covers the code points below 256).
\<close>

definition digit_char :: "nat \<Rightarrow> char" where
  "digit_char n = ''0123456789'' ! n"

fun str_nat :: "nat \<Rightarrow> string" where
  "str_nat n = (if n < 10 then [digit_char n] else str_nat (n div 10) @ [digit_char (n mod 10)])"

declare str_nat.simps [simp del]

text \<open>\<open>str(i)\<close> of a Python integer.\<close>

definition str_int :: "int \<Rightarrow> string" where
  "str_int i = (if i < 0 then CHR ''-'' # str_nat (nat (- i)) else str_nat (nat i))"

text \<open>Zero padding to width \<open>k\<close>, as the format \<open>%0kd\<close> does for a natural number.\<close>

definition zpad :: "nat \<Rightarrow> nat \<Rightarrow> string" where
  "zpad k n = replicate (k - length (str_nat n)) CHR ''0'' @ str_nat n"

text \<open>\<open>str.isspace\<close> on the code points below 256.\<close>

definition isspace :: "char \<Rightarrow> bool" where
  "isspace c = ((of_char c :: nat) \<in> set [9, 10, 11, 12, 13, 28, 29, 30, 31, 32, 133, 160])"

text \<open>\<open>s.strip()\<close>: leading and trailing whitespace removed.\<close>

definition strip :: "string \<Rightarrow> string" where
  "strip s = rev (dropWhile isspace (rev (dropWhile isspace s)))"




text \<open>\<open>sep.join(parts)\<close>.\<close>

fun join :: "string \<Rightarrow> string list \<Rightarrow> string" where
  "join sep [] = []"
| "join sep [p] = p"
| "join sep (p # q # ps) = p @ sep @ join sep (q # ps)"

section \<open>Dates and times\<close>

text \<open>
  A timezone-aware \<open>datetime\<close> at whole seconds: the instant as seconds since
  1970-01-01T00:00:00Z, and the offset of its \<open>tzinfo\<close> from UTC in seconds. A \<open>date\<close>
  is the number of its day, counted from 1970-01-01; Python orders dates by
  (year, month, day), which is the order of the day numbers.
\<close>

record datetime =
  timestamp :: int
  utcoffset :: int

type_synonym date = int

definition UTC :: int where
  "UTC = 0"

text \<open>\<open>dt.astimezone(tz)\<close>: the same instant, seen in the zone \<open>tz\<close>.\<close>

definition astimezone :: "datetime \<Rightarrow> int \<Rightarrow> datetime" where
  "astimezone dt tz = dt\<lparr>utcoffset := tz\<rparr>"

text \<open>\<open>dt.date()\<close>: the calendar day of the datetime in its own zone.\<close>

definition date_of :: "datetime \<Rightarrow> date" where
  "date_of dt = (timestamp dt + utcoffset dt) div 86400"


definition civil_from_days :: "date \<Rightarrow> int \<times> int \<times> int" where
  "civil_from_days z =
     (let z' = z + 719468;
          era = z' div 146097;
          doe = z' - era * 146097;
          yoe = (doe - doe div 1460 + doe div 36524 - doe div 146096) div 365;
          doy = doe - (365 * yoe + yoe div 4 - yoe div 100);
          mp = (5 * doy + 2) div 153;
          d = doy - (153 * mp + 2) div 5 + 1;
          m = (if mp < 10 then mp + 3 else mp - 9);
          y = yoe + era * 400
      in (if m \<le> 2 then y + 1 else y, m, d))"



text \<open>
  \<open>dt.isoformat()\<close> of an aware datetime at whole seconds:
  \<open>YYYY-MM-DDTHH:MM:SS+HH:MM\<close>, the offset with seconds only when it has some.
\<close>

definition isoformat :: "datetime \<Rightarrow> string" where
  "isoformat dt =
     (let local = timestamp dt + utcoffset dt;
          (y, m, d) = civil_from_days (local div 86400);
          sod = nat (local mod 86400);
          off = nat \<bar>utcoffset dt\<bar>
      in zpad 4 (nat y) @ ''-'' @ zpad 2 (nat m) @ ''-'' @ zpad 2 (nat d) @ ''T''
         @ zpad 2 (sod div 3600) @ '':'' @ zpad 2 (sod mod 3600 div 60) @ '':'' @ zpad 2 (sod mod 60)
         @ (if utcoffset dt < 0 then ''-'' else ''+'')
         @ zpad 2 (off div 3600) @ '':'' @ zpad 2 (off mod 3600 div 60)
         @ (if off mod 60 = 0 then [] else '':'' @ zpad 2 (off mod 60)))"

subsection \<open>\<open>datetime.strptime(s, "%Y-%m-%d")\<close>\<close>








section \<open>Exceptions\<close>

text \<open>
  The exceptions the handlers tell apart, each with the text \<open>str(e)\<close> gives; for an
  \<open>HTTPException\<close> the status code and the detail, and as its text \<open>status: detail\<close>.
  \<open>PyException\<close> is any other subclass of \<open>Exception\<close> (\<open>ValueError\<close>, \<open>KeyError\<close>, an
  error of the network, ...). Logging is left out: it changes no result.
\<close>

datatype exn =
    HTTPException nat string
  | ChatInvalidError string
  | ClientError string
  | PyException string

definition str_exn :: "exn \<Rightarrow> string" where
  "str_exn e =
     (case e of
        HTTPException status_code detail \<Rightarrow> str_nat status_code @ '': '' @ detail
      | ChatInvalidError s \<Rightarrow> s
      | ClientError s \<Rightarrow> s
      | PyException s \<Rightarrow> s)"

subsection \<open>\<open>parse_date\<close> (api.py, lines 50-69)\<close>


section \<open>Python values and \<open>json.dumps\<close>\<close>

text \<open>
  The values the program builds and serialises. A \<open>dict\<close> keeps its items in insertion
  order, and \<open>json.dumps\<close> writes them in that order.
\<close>

datatype pyval =
    PNone
  | PInt int
  | PStr string
  | PList "pyval list"
  | PDict "(string \<times> pyval) list"

text \<open>\<open>d[key]\<close>: the value of the key, or \<open>KeyError\<close> (whose text is the key's \<open>repr\<close>).\<close>

definition py_getitem :: "pyval \<Rightarrow> string \<Rightarrow> exn + pyval" where
  "py_getitem d key =
     (case d of
        PDict items \<Rightarrow>
          (case map_of items key of
             Some v \<Rightarrow> Inr v
           | None \<Rightarrow> Inl (PyException ([CHR 0x27] @ key @ [CHR 0x27])))
      | _ \<Rightarrow> Inl (PyException ''object is not subscriptable''))"

text \<open>
  The string encoder of \<open>json\<close> with \<open>ensure_ascii\<close> (the default): the quote and the
  backslash are escaped, the control characters by their short names, and every other
  character outside \<open>' '..'~'\<close> as \<open>\u00xx\<close>.
\<close>

definition hex_digit :: "nat \<Rightarrow> char" where
  "hex_digit n = ''0123456789abcdef'' ! n"

definition escape_char :: "char \<Rightarrow> string" where
  "escape_char c =
     (if c = CHR 0x22 then [CHR 0x5C, CHR 0x22]
      else if c = CHR 0x5C then [CHR 0x5C, CHR 0x5C]
      else if c = CHR 0x0A then [CHR 0x5C, CHR ''n'']
      else if c = CHR 0x0D then [CHR 0x5C, CHR ''r'']
      else if c = CHR 0x09 then [CHR 0x5C, CHR ''t'']
      else if c = CHR 0x08 then [CHR 0x5C, CHR ''b'']
      else if c = CHR 0x0C then [CHR 0x5C, CHR ''f'']
      else if 32 \<le> (of_char c :: nat) \<and> (of_char c :: nat) \<le> 126 then [c]
      else [CHR 0x5C, CHR ''u'', CHR ''0'', CHR ''0'',
            hex_digit ((of_char c :: nat) div 16), hex_digit ((of_char c :: nat) mod 16)])"

definition encode_str :: "string \<Rightarrow> string" where
  "encode_str s = [CHR 0x22] @ concat (map escape_char s) @ [CHR 0x22]"

text \<open>A new line and the indentation of nesting level \<open>level\<close>.\<close>

definition newline_indent :: "nat \<Rightarrow> nat \<Rightarrow> string" where
  "newline_indent indent level = CHR 0x0A # replicate (indent * level) CHR '' ''"

text \<open>
  The encoder with an indentation: an empty list is \<open>[]\<close> and an empty dict \<open>{}\<close>;
  otherwise each item stands on a line of its own, one level deeper, the items are
  separated by a comma, a key from its value by a colon and a space.
\<close>

fun iterencode :: "nat \<Rightarrow> nat \<Rightarrow> pyval \<Rightarrow> string" where
  "iterencode indent level PNone = ''null''"
| "iterencode indent level (PInt i) = str_int i"
| "iterencode indent level (PStr s) = encode_str s"
| "iterencode indent level (PList lst) =
     (if lst = [] then ''[]''
      else ''['' @ newline_indent indent (Suc level)
           @ join ('','' @ newline_indent indent (Suc level))
                (map (iterencode indent (Suc level)) lst)
           @ newline_indent indent level @ '']'')"
| "iterencode indent level (PDict dct) =
     (if dct = [] then ''{}''
      else ''{'' @ newline_indent indent (Suc level)
           @ join ('','' @ newline_indent indent (Suc level))
                (map (\<lambda>(key, v). encode_str key @ '': '' @ iterencode indent (Suc level) v) dct)
           @ newline_indent indent level @ ''}'')"

text \<open>\<open>json.dumps(obj, indent=indent)\<close>.\<close>

definition json_dumps :: "pyval \<Rightarrow> nat \<Rightarrow> string" where
  "json_dumps obj indent = iterencode indent 0 obj"

section \<open>The collaborators\<close>

text \<open>A message as the Telegram client yields it: \<open>date\<close>, \<open>sender_id\<close>, \<open>text\<close>, \<open>id\<close>.\<close>

record message =
  msg_date :: "datetime option"
  msg_sender_id :: "int option"
  msg_text :: "string option"
  msg_id :: int

text \<open>
  What the outside world answers while one channel is processed: the Telegram client
  (whether it is connected, whether \<open>start\<close> raises, the stream of a channel or the
  exception the iteration raises), S3 (per call, the exception it raises, if any), the
  local file system (whether opening a file for writing raises), the clock (the text of
  \<open>datetime.now().strftime('%Y_%m_%d')\<close>) and the two settings read from the process
  environment (\<open>None\<close> when unset).
\<close>

record env =
  client_is_connected :: bool
  client_start :: "exn option"
  client_iter_messages :: "string \<Rightarrow> exn + message list"
  create_s3_client :: "exn option"
  s3_head_bucket :: "string \<Rightarrow> exn option"
  s3_create_bucket :: "string \<Rightarrow> exn option"
  s3_upload_file :: "string \<Rightarrow> string \<Rightarrow> string \<Rightarrow> exn option"
  open_for_writing :: "string \<Rightarrow> exn option"
  now_strftime :: string
  AWS_REGION :: "string option"
  S3_BUCKET_NAME :: "string option"

text \<open>What the program writes: the local files, and the objects in S3 by bucket and key.\<close>

record world =
  files :: "string \<rightharpoonup> string"
  s3_objects :: "string \<times> string \<rightharpoonup> string"

text \<open>An optional setting inside an f-string: \<open>None\<close> is rendered as the text \<open>None\<close>.\<close>

definition fmt :: "string option \<Rightarrow> string" where
  "fmt v = (case v of None \<Rightarrow> ''None'' | Some s \<Rightarrow> s)"

section \<open>The message loop (api.py, lines 157-179; cmd.py, lines 91-109)\<close>

text \<open>The dict appended for a retained message.\<close>

definition message_dict :: "message \<Rightarrow> datetime \<Rightarrow> string \<Rightarrow> pyval" where
  "message_dict message d t =
     PDict [(''date'', PStr (isoformat d)),
            (''sender_id'', (case msg_sender_id message of None \<Rightarrow> PNone | Some i \<Rightarrow> PInt i)),
            (''message'', PStr t),
            (''message_id'', PInt (msg_id message))]"

text \<open>
  The body of \<open>async for message in client.iter_messages(username, limit=None)\<close>, over
  the messages the stream yields; \<open>messages\<close> is the list built so far. Each \<open>continue\<close>
  is a recursive call that leaves the list as it is.
\<close>

fun iter_loop :: "datetime option \<Rightarrow> datetime option \<Rightarrow> message list \<Rightarrow> pyval list \<Rightarrow> pyval list" where
  "iter_loop from_date to_date [] messages = messages"
| "iter_loop from_date to_date (message # stream) messages =
     (case msg_date message of
        None \<Rightarrow> iter_loop from_date to_date stream messages
      | Some d \<Rightarrow>
          (let message_date = date_of (astimezone d UTC) in
           if (case from_date of None \<Rightarrow> False | Some f \<Rightarrow> message_date < date_of f)
           then iter_loop from_date to_date stream messages
           else if (case to_date of None \<Rightarrow> False | Some t \<Rightarrow> message_date > date_of t)
           then iter_loop from_date to_date stream messages
           else (case msg_text message of
                   None \<Rightarrow> iter_loop from_date to_date stream messages
                 | Some t \<Rightarrow>
                     (if t = [] then iter_loop from_date to_date stream messages
                      else iter_loop from_date to_date stream
                             (messages @ [message_dict message d t])))))"

text \<open>
  The \<open>try\<close> block of \<open>download_chat_messages\<close>: connect if need be, then run the loop
  over the channel's stream. An exception of \<open>start\<close> or of the iteration leaves the
  block; the list built until then is lost with it.
\<close>

definition try_download :: "env \<Rightarrow> string \<Rightarrow> datetime option \<Rightarrow> datetime option \<Rightarrow> exn + pyval list" where
  "try_download env username from_date to_date =
     (case (if client_is_connected env then None else client_start env) of
        Some e \<Rightarrow> Inl e
      | None \<Rightarrow>
          (case client_iter_messages env username of
             Inl e \<Rightarrow> Inl e
           | Inr stream \<Rightarrow> Inr (iter_loop from_date to_date stream [])))"

section \<open>api.py\<close>

subsection \<open>\<open>download_chat_messages\<close> (lines 134-199)\<close>

definition download_chat_messages ::
  "env \<Rightarrow> string \<Rightarrow> string \<Rightarrow> datetime option \<Rightarrow> datetime option \<Rightarrow> exn + pyval" where
  "download_chat_messages env username token_name from_date to_date =
     (case try_download env username from_date to_date of
        Inr messages \<Rightarrow>
          Inr (PDict [(''token_name'', PStr token_name),
                      (''message_count'', PInt (int (length messages))),
                      (''messages'', PList messages)])
      | Inl (ChatInvalidError s) \<Rightarrow>
          Inl (HTTPException 404 (''Chat '' @ [CHR 0x27] @ username @ [CHR 0x27] @ '' not found or inaccessible.''))
      | Inl e \<Rightarrow> Inl (HTTPException 500 (''Error downloading messages: '' @ str_exn e)))"

subsection \<open>\<open>create_s3_bucket\<close> (lines 80-104) and \<open>upload_file_to_s3\<close> (lines 106-131)\<close>


text \<open>
  The upload reads the local file and stores it under the key; a file that does not
  exist raises inside the \<open>try\<close>, as an error of S3 does.
\<close>

definition s3_url_of :: "string option \<Rightarrow> string option \<Rightarrow> string \<Rightarrow> string" where
  "s3_url_of bucket_name region key =
     ''https://'' @ fmt bucket_name @ ''.s3.'' @ fmt region @ ''.amazonaws.com/'' @ key"

definition client_upload_file :: "env \<Rightarrow> string \<Rightarrow> string option \<Rightarrow> string \<Rightarrow> world \<Rightarrow> exn + world" where
  "client_upload_file env file_path bucket_name key w =
     (case files w file_path of
        None \<Rightarrow>
          Inl (PyException (''[Errno 2] No such file or directory: '' @ [CHR 0x27] @ file_path @ [CHR 0x27]))
      | Some body \<Rightarrow>
          (case s3_upload_file env file_path (fmt bucket_name) key of
             Some e \<Rightarrow> Inl e
           | None \<Rightarrow> Inr (w\<lparr>s3_objects := (s3_objects w)((fmt bucket_name, key) \<mapsto> body)\<rparr>)))"

definition upload_file_to_s3 :: "env \<Rightarrow> string option \<Rightarrow> string \<Rightarrow> string \<Rightarrow> world \<Rightarrow> (exn + string) \<times> world" where
  "upload_file_to_s3 env bucket_name file_path key w =
     (case create_s3_client env of
        Some e \<Rightarrow> (Inl e, w)
      | None \<Rightarrow>
          (case client_upload_file env file_path bucket_name key w of
             Inr w' \<Rightarrow> (Inr (s3_url_of bucket_name (AWS_REGION env) key), w')
           | Inl e \<Rightarrow> (Inl (HTTPException 500 (''Failed to upload file to S3: '' @ str_exn e)), w)))"

subsection \<open>\<open>process_messages_file\<close> (lines 202-285)\<close>

text \<open>The two \<open>except\<close> clauses of the loop: the entry appended for a failed channel.\<close>

definition failed_entry :: "string \<Rightarrow> exn \<Rightarrow> pyval" where
  "failed_entry username e =
     PDict [(''username'', PStr username),
            (''status'', PStr ''failed''),
            (''error'', PStr (case e of HTTPException status_code detail \<Rightarrow> detail | _ \<Rightarrow> str_exn e))]"

text \<open>
  One turn of \<open>for username in usernames\<close> (lines 234-276): the entry it appends to
  \<open>result_summary\<close>, and the world it leaves. Every exception raised inside the \<open>try\<close>
  ends in one of the two \<open>except\<close> clauses.
\<close>

definition process_messages_file_step ::
  "env \<Rightarrow> datetime option \<Rightarrow> datetime option \<Rightarrow> string \<Rightarrow> world \<Rightarrow> pyval \<times> world" where
  "process_messages_file_step env from_date_obj to_date_obj username w =
     (let bucket_name = S3_BUCKET_NAME env;
          token_name = ''Token_'' @ strip username
      in case download_chat_messages env (strip username) token_name from_date_obj to_date_obj of
           Inl e \<Rightarrow> (failed_entry (strip username) e, w)
         | Inr result \<Rightarrow>
             (let filename = ''telegram_'' @ strip username @ ''_'' @ now_strftime env @ ''.json'' in
              case open_for_writing env filename of
                Some e \<Rightarrow> (failed_entry (strip username) e, w)
              | None \<Rightarrow>
                  (let w1 = w\<lparr>files := (files w)(filename \<mapsto> json_dumps result 4)\<rparr>;
                       s3_key = filename;
                       s3_url = s3_url_of bucket_name (AWS_REGION env) s3_key
                   in case upload_file_to_s3 env bucket_name filename s3_key w1 of
                        (Inl e, w2) \<Rightarrow> (failed_entry (strip username) e, w2)
                      | (Inr u, w2) \<Rightarrow>
                          (case py_getitem result ''message_count'' of
                             Inl e \<Rightarrow> (failed_entry (strip username) e, w2)
                           | Inr message_count \<Rightarrow>
                               (PDict [(''username'', PStr (strip username)),
                                       (''status'', PStr ''success''),
                                       (''message_count'', message_count),
                                       (''s3_file'', PStr s3_url)], w2)))))"

text \<open>
  The loop. The outside world may change from one channel to the next: \<open>envs i\<close> is what
  it answers during turn \<open>i\<close>.
\<close>

fun process_messages_file_loop ::
  "(nat \<Rightarrow> env) \<Rightarrow> datetime option \<Rightarrow> datetime option \<Rightarrow> nat \<Rightarrow> string list \<Rightarrow> pyval list \<Rightarrow> world
   \<Rightarrow> pyval list \<times> world" where
  "process_messages_file_loop envs from_date_obj to_date_obj i [] result_summary w = (result_summary, w)"
| "process_messages_file_loop envs from_date_obj to_date_obj i (username # usernames) result_summary w =
     (case process_messages_file_step (envs i) from_date_obj to_date_obj username w of
        (entry, w') \<Rightarrow>
          process_messages_file_loop envs from_date_obj to_date_obj (Suc i) usernames
            (result_summary @ [entry]) w')"




section \<open>cmd.py\<close>

subsection \<open>\<open>download_chat_messages\<close> (lines 85-117)\<close>

definition download_chat_messages_cmd ::
  "env \<Rightarrow> string \<Rightarrow> datetime option \<Rightarrow> datetime option \<Rightarrow> exn + pyval" where
  "download_chat_messages_cmd env username from_date to_date =
     (case try_download env username from_date to_date of
        Inr messages \<Rightarrow> Inr (PList messages)
      | Inl (ChatInvalidError s) \<Rightarrow>
          Inl (PyException (''Chat '' @ [CHR 0x27] @ username @ [CHR 0x27] @ '' not found or inaccessible.''))
      | Inl e \<Rightarrow> Inl e)"

subsection \<open>\<open>create_s3_bucket\<close> (lines 53-68) and \<open>upload_file_to_s3\<close> (lines 71-82)\<close>

definition create_s3_bucket_cmd :: "env \<Rightarrow> string option \<Rightarrow> exn option" where
  "create_s3_bucket_cmd env bucket_name =
     (case create_s3_client env of
        Some e \<Rightarrow> Some e
      | None \<Rightarrow>
          (case s3_head_bucket env (fmt bucket_name) of
             None \<Rightarrow> None
           | Some (ClientError s) \<Rightarrow> s3_create_bucket env (fmt bucket_name)
           | Some e \<Rightarrow> Some e))"

definition upload_file_to_s3_cmd :: "env \<Rightarrow> string option \<Rightarrow> string \<Rightarrow> string \<Rightarrow> world \<Rightarrow> (exn + string) \<times> world" where
  "upload_file_to_s3_cmd env bucket_name file_path key w =
     (case create_s3_client env of
        Some e \<Rightarrow> (Inl e, w)
      | None \<Rightarrow>
          (case client_upload_file env file_path bucket_name key w of
             Inr w' \<Rightarrow> (Inr (s3_url_of bucket_name (AWS_REGION env) key), w')
           | Inl e \<Rightarrow> (Inl e, w)))"

subsection \<open>\<open>process_chats\<close> (lines 120-136)\<close>

text \<open>
  One turn of \<open>for username in usernames\<close>: the exception the \<open>except\<close> clause caught
  (and logged), if any, and the world the turn leaves.
\<close>

definition process_chats_step ::
  "env \<Rightarrow> datetime option \<Rightarrow> datetime option \<Rightarrow> string \<Rightarrow> world \<Rightarrow> exn option \<times> world" where
  "process_chats_step env from_date to_date username w =
     (case download_chat_messages_cmd env username from_date to_date of
        Inl e \<Rightarrow> (Some e, w)
      | Inr messages \<Rightarrow>
          (let filename = ''telegram_'' @ username @ ''_'' @ now_strftime env @ ''.json'' in
           case open_for_writing env filename of
             Some e \<Rightarrow> (Some e, w)
           | None \<Rightarrow>
               (let w1 = w\<lparr>files := (files w)(filename \<mapsto> json_dumps messages 4)\<rparr> in
                case upload_file_to_s3_cmd env (S3_BUCKET_NAME env) filename filename w1 of
                  (Inl e, w2) \<Rightarrow> (Some e, w2)
                | (Inr s3_url, w2) \<Rightarrow> (None, w2))))"

fun process_chats_loop ::
  "(nat \<Rightarrow> env) \<Rightarrow> datetime option \<Rightarrow> datetime option \<Rightarrow> nat \<Rightarrow> string list \<Rightarrow> world \<Rightarrow> world" where
  "process_chats_loop envs from_date to_date i [] w = w"
| "process_chats_loop envs from_date to_date i (username # usernames) w =
     process_chats_loop envs from_date to_date (Suc i) usernames
       (snd (process_chats_step (envs i) from_date to_date username w))"

text \<open>
  \<open>readlines\<close> is what opening and reading the file of usernames gives: its lines, or
  the exception raised. An exception before the loop leaves \<open>process_chats\<close>.
\<close>

definition process_chats ::
  "env \<Rightarrow> (nat \<Rightarrow> env) \<Rightarrow> exn + string list \<Rightarrow> datetime option \<Rightarrow> datetime option \<Rightarrow> world
   \<Rightarrow> exn option \<times> world" where
  "process_chats env0 envs readlines from_date to_date w =
     (case readlines of
        Inl e \<Rightarrow> (Some e, w)
      | Inr lines \<Rightarrow>
          (let usernames = map strip lines in
           case create_s3_bucket_cmd env0 (S3_BUCKET_NAME env0) of
             Some e \<Rightarrow> (Some e, w)
           | None \<Rightarrow> (None, process_chats_loop envs from_date to_date 0 usernames w)))"

section \<open>api_time.py\<close>

text \<open>
  \<open>process_messages_daily\<close> (lines 80-148) is the handler of api.py without the dates,
  which it computes itself, and without a response. It calls \<open>create_s3_bucket\<close>,
  \<open>download_chat_messages\<close> and \<open>upload_file_to_s3\<close>, which api_time.py neither defines
  nor imports: looking such a name up raises \<open>NameError\<close>.
\<close>

definition name_error :: "string \<Rightarrow> exn" where
  "name_error name = PyException (''name '' @ [CHR 0x27] @ name @ [CHR 0x27] @ '' is not defined'')"

text \<open>
  The loop (lines 104-144): the call of \<open>download_chat_messages\<close> raises inside the
  \<open>try\<close>, and the clause \<open>except Exception\<close> appends a failed entry.
\<close>

fun process_messages_daily_loop :: "string list \<Rightarrow> pyval list \<Rightarrow> pyval list" where
  "process_messages_daily_loop [] result_summary = result_summary"
| "process_messages_daily_loop (username # usernames) result_summary =
     process_messages_daily_loop usernames
       (result_summary @ [failed_entry (strip username) (name_error ''download_chat_messages'')])"

text \<open>
  The \<open>try\<close> block of the job: the exception that leaves it, which the job logs. The
  lines of the file are read, then the call of \<open>create_s3_bucket\<close> raises, before the
  loop.
\<close>

definition process_messages_daily :: "exn + string list \<Rightarrow> exn option" where
  "process_messages_daily readlines =
     (case readlines of
        Inl e \<Rightarrow> Some e
      | Inr lines \<Rightarrow> Some (name_error ''create_s3_bucket''))"

section \<open>The notions of the specification\<close>

text \<open>
  The date window: both bounds inclusive, an absent bound open. A date is in the window
  iff (from absent or date \<open>\<ge>\<close> from) and (to absent or date \<open>\<le>\<close> to).
\<close>

record date_window =
  window_from :: "date option"
  window_to :: "date option"

definition in_window :: "date_window \<Rightarrow> date \<Rightarrow> bool" where
  "in_window W d =
     ((window_from W = None \<or> d \<ge> the (window_from W)) \<and>
      (window_to W = None \<or> d \<le> the (window_to W)))"

text \<open>The window the two optional bounds of a fetch stand for.\<close>

definition window_of :: "datetime option \<Rightarrow> datetime option \<Rightarrow> date_window" where
  "window_of from_date to_date =
     \<lparr>window_from = map_option date_of from_date, window_to = map_option date_of to_date\<rparr>"

text \<open>The UTC calendar date of a message, if it has a timestamp.\<close>

definition utc_date :: "message \<Rightarrow> date option" where
  "utc_date m = map_option (\<lambda>d. date_of (astimezone d UTC)) (msg_date m)"

text \<open>A message has text when its text is neither absent nor empty.\<close>

definition has_text :: "message \<Rightarrow> bool" where
  "has_text m = (case msg_text m of None \<Rightarrow> False | Some t \<Rightarrow> t \<noteq> [])"

text \<open>
  The filter of the fetch: a message passes when it has a timestamp, its UTC calendar
  date is in the window, and it has text.
\<close>

definition passes :: "date_window \<Rightarrow> message \<Rightarrow> bool" where
  "passes W m = (case utc_date m of None \<Rightarrow> False | Some day \<Rightarrow> in_window W day \<and> has_text m)"

text \<open>The entry of the result that stands for a message with a timestamp and a text.\<close>

definition entry_of :: "message \<Rightarrow> pyval" where
  "entry_of m =
     (case msg_date m of
        None \<Rightarrow> PNone
      | Some d \<Rightarrow> (case msg_text m of None \<Rightarrow> PNone | Some t \<Rightarrow> message_dict m d t))"

text \<open>The result of a fetch, and the stream it was fetched from: the connection stands and
  the channel's stream is read to its end.\<close>

definition source_yields :: "env \<Rightarrow> string \<Rightarrow> message list \<Rightarrow> bool" where
  "source_yields env username stream =
     ((client_is_connected env \<or> client_start env = None) \<and>
      client_iter_messages env username = Inr stream)"

text \<open>The document of an archive: \<open>{token_name, message_count, messages}\<close>.\<close>

definition fetch_result :: "string \<Rightarrow> pyval list \<Rightarrow> pyval" where
  "fetch_result token_name messages =
     PDict [(''token_name'', PStr token_name),
            (''message_count'', PInt (int (length messages))),
            (''messages'', PList messages)]"

text \<open>The name of a channel's archive: \<open>telegram_{identifier}_{date-of-run}.json\<close>.\<close>

definition artifact_name :: "string \<Rightarrow> string \<Rightarrow> string" where
  "artifact_name identifier run_date = ''telegram_'' @ identifier @ ''_'' @ run_date @ ''.json''"

text \<open>
  The schema of an archive. A dict conforms to a list of fields when it has exactly these
  keys, in this order, each with a value of the field's type.
\<close>

definition is_str :: "pyval \<Rightarrow> bool" where
  "is_str v = (case v of PStr s \<Rightarrow> True | _ \<Rightarrow> False)"

definition is_int :: "pyval \<Rightarrow> bool" where
  "is_int v = (case v of PInt i \<Rightarrow> True | _ \<Rightarrow> False)"

definition is_int_or_null :: "pyval \<Rightarrow> bool" where
  "is_int_or_null v = (case v of PInt i \<Rightarrow> True | PNone \<Rightarrow> True | _ \<Rightarrow> False)"

definition conforms :: "(string \<times> pyval) list \<Rightarrow> (string \<times> (pyval \<Rightarrow> bool)) list \<Rightarrow> bool" where
  "conforms items schema = list_all2 (\<lambda>(key, v) (name, type). key = name \<and> type v) items schema"

text \<open>\<open>{date: string, sender_id: integer or null, message: string, message_id: integer}\<close>\<close>

definition is_message_entry :: "pyval \<Rightarrow> bool" where
  "is_message_entry v =
     (case v of
        PDict items \<Rightarrow>
          conforms items [(''date'', is_str), (''sender_id'', is_int_or_null),
                          (''message'', is_str), (''message_id'', is_int)]
      | _ \<Rightarrow> False)"

definition is_message_list :: "pyval \<Rightarrow> bool" where
  "is_message_list v = (case v of PList entries \<Rightarrow> list_all is_message_entry entries | _ \<Rightarrow> False)"


text \<open>
  Python's \<open>==\<close> on the values: two dicts are equal when they have the same keys with
  equal values, in whatever order the keys were inserted.
\<close>

fun py_eq :: "pyval \<Rightarrow> pyval \<Rightarrow> bool" where
  "py_eq PNone PNone = True"
| "py_eq (PInt a) (PInt b) = (a = b)"
| "py_eq (PStr a) (PStr b) = (a = b)"
| "py_eq (PList xs) (PList ys) = list_all2 py_eq xs ys"
| "py_eq (PDict xs) (PDict ys) =
     (set (map fst xs) = set (map fst ys) \<and>
      list_all (\<lambda>(key, v). case map_of ys key of None \<Rightarrow> False | Some v' \<Rightarrow> py_eq v v') xs)"
| "py_eq _ _ = False"



text \<open>
  A channel without faults: the connection stands, the stream is read to its end, the
  archive can be written and uploaded.
\<close>

definition no_faults :: "env \<Rightarrow> string \<Rightarrow> bool" where
  "no_faults env identifier =
     ((client_is_connected env \<or> client_start env = None) \<and>
      (case client_iter_messages env identifier of Inl e \<Rightarrow> False | Inr stream \<Rightarrow> True) \<and>
      open_for_writing env (artifact_name identifier (now_strftime env)) = None \<and>
      create_s3_client env = None \<and>
      s3_upload_file env (artifact_name identifier (now_strftime env)) (fmt (S3_BUCKET_NAME env))
        (artifact_name identifier (now_strftime env)) = None)"

text \<open>A channel that is unavailable: the iteration over it raises \<open>ChatInvalidError\<close>.\<close>

definition channel_unavailable :: "env \<Rightarrow> string \<Rightarrow> bool" where
  "channel_unavailable env identifier =
     ((client_is_connected env \<or> client_start env = None) \<and>
      (case client_iter_messages env identifier of
         Inl (ChatInvalidError s) \<Rightarrow> True | _ \<Rightarrow> False))"

text \<open>The status of an outcome of the summary.\<close>

definition status_of :: "pyval \<Rightarrow> exn + pyval" where
  "status_of entry = py_getitem entry ''status''"


section \<open>A scenario\<close>

text \<open>
  The end-to-end scenario of the specification: the channel \<open>channelX\<close> yields a message
  of 2023-12-31, one of 2024-01-01T08:00Z with the text \<open>hi\<close>, and one of
  2024-01-01T09:00Z with an empty text; here it also yields a message without a
  timestamp. The window is the day 2024-01-01. The channel \<open>B\<close> is not accessible.
\<close>

definition old_message :: message where
  "old_message = \<lparr>msg_date = Some \<lparr>timestamp = 1704034800, utcoffset = 0\<rparr>,
                   msg_sender_id = Some 7, msg_text = Some ''old'', msg_id = 1\<rparr>"

definition hi_message :: message where
  "hi_message = \<lparr>msg_date = Some \<lparr>timestamp = 1704096000, utcoffset = 0\<rparr>,
                  msg_sender_id = Some 7, msg_text = Some ''hi'', msg_id = 2\<rparr>"

definition empty_message :: message where
  "empty_message = \<lparr>msg_date = Some \<lparr>timestamp = 1704099600, utcoffset = 0\<rparr>,
                     msg_sender_id = None, msg_text = Some [], msg_id = 3\<rparr>"

definition undated_message :: message where
  "undated_message = \<lparr>msg_date = None, msg_sender_id = Some 8, msg_text = Some ''lost'', msg_id = 4\<rparr>"

definition scenario_stream :: "message list" where
  "scenario_stream = [old_message, hi_message, empty_message, undated_message]"

definition scenario_day :: datetime where
  "scenario_day = \<lparr>timestamp = 1704067200, utcoffset = 0\<rparr>"

definition scenario_env :: env where
  "scenario_env =
     \<lparr>client_is_connected = False,
      client_start = None,
      client_iter_messages =
        (\<lambda>username. if username = ''B'' then Inl (ChatInvalidError ''CHAT_INVALID'')
                     else Inr scenario_stream),
      create_s3_client = None,
      s3_head_bucket = (\<lambda>bucket. None),
      s3_create_bucket = (\<lambda>bucket. None),
      s3_upload_file = (\<lambda>file_path bucket key. None),
      open_for_writing = (\<lambda>filename. None),
      now_strftime = ''2024_01_02'',
      AWS_REGION = Some ''eu-west-1'',
      S3_BUCKET_NAME = Some ''archive''\<rparr>"

definition empty_world :: world where
  "empty_world = \<lparr>files = Map.empty, s3_objects = Map.empty\<rparr>"


definition scenario_result :: pyval where
  "scenario_result = fetch_result ''Token_channelX'' [entry_of hi_message]"

definition scenario_entry :: pyval where
  "scenario_entry =
     PDict [(''username'', PStr ''channelX''),
            (''status'', PStr ''success''),
            (''message_count'', PInt 1),
            (''s3_file'', PStr ''https://archive.s3.eu-west-1.amazonaws.com/telegram_channelX_2024_01_02.json'')]"

definition scenario_world :: world where
  "scenario_world =
     \<lparr>files = [''telegram_channelX_2024_01_02.json'' \<mapsto> json_dumps scenario_result 4],
      s3_objects = [(''archive'', ''telegram_channelX_2024_01_02.json'')
                      \<mapsto> json_dumps scenario_result 4]\<rparr>"

text \<open>The scenario with a disk that is full, and with S3 out of reach.\<close>

definition full_disk_env :: env where
  "full_disk_env =
     scenario_env\<lparr>open_for_writing :=
       (\<lambda>filename. Some (PyException ''[Errno 28] No space left on device''))\<rparr>"

definition offline_s3_env :: env where
  "offline_s3_env =
     scenario_env\<lparr>s3_upload_file :=
       (\<lambda>file_path bucket key. Some (PyException ''Could not connect to the endpoint URL''))\<rparr>"

section \<open>The fetch\<close>

text \<open>One turn of the message loop appends the entry of a message that passes, and nothing else.\<close>

lemma iter_loop_Cons:
  "iter_loop fd td (m # stream) acc =
     iter_loop fd td stream (if passes (window_of fd td) m then acc @ [entry_of m] else acc)"
  by (cases "msg_date m"; cases "msg_text m"; cases fd; cases td)
     (auto simp: passes_def utc_date_def in_window_def window_of_def has_text_def
          entry_of_def Let_def)

lemma iter_loop_filter:
  "iter_loop fd td stream acc = acc @ map entry_of (filter (passes (window_of fd td)) stream)"
proof (induction stream arbitrary: acc)
  case Nil
  show ?case by simp
next
  case (Cons m stream)
  show ?case
    unfolding iter_loop_Cons Cons.IH by simp
qed

lemma try_download_yields:
  assumes "source_yields env username stream"
  shows "try_download env username fd td
           = Inr (map entry_of (filter (passes (window_of fd td)) stream))"
  using assms by (auto simp: source_yields_def try_download_def iter_loop_filter)

lemma download_yields:
  assumes "source_yields env username stream"
  shows "download_chat_messages env username token_name fd td
           = Inr (fetch_result token_name (map entry_of (filter (passes (window_of fd td)) stream)))"
  by (simp add: download_chat_messages_def try_download_yields [OF assms] fetch_result_def)

lemma download_cmd_yields:
  assumes "source_yields env username stream"
  shows "download_chat_messages_cmd env username fd td
           = Inr (PList (map entry_of (filter (passes (window_of fd td)) stream)))"
  by (simp add: download_chat_messages_cmd_def try_download_yields [OF assms])

lemma passes_iff:
  "passes (window_of fd td) m \<longleftrightarrow>
     (\<exists>day. utc_date m = Some day \<and> has_text m \<and>
        (fd = None \<or> day \<ge> date_of (the fd)) \<and> (td = None \<or> day \<le> date_of (the td)))"
  by (cases "utc_date m"; cases fd; cases td) (auto simp: passes_def in_window_def window_of_def)

text \<open>The scenario, evaluated.\<close>

lemma scenario_yields: "source_yields scenario_env ''channelX'' scenario_stream"
  by (simp add: source_yields_def scenario_env_def)

lemma scenario_passes:
  "\<not> passes (window_of (Some scenario_day) (Some scenario_day)) old_message"
  "passes (window_of (Some scenario_day) (Some scenario_day)) hi_message"
  "\<not> passes (window_of (Some scenario_day) (Some scenario_day)) empty_message"
  "\<not> passes (window_of (Some scenario_day) (Some scenario_day)) undated_message"
  by (simp_all add: passes_def utc_date_def in_window_def window_of_def has_text_def
        date_of_def astimezone_def UTC_def scenario_day_def
        old_message_def hi_message_def empty_message_def undated_message_def)

lemma scenario_kept:
  "filter (passes (window_of (Some scenario_day) (Some scenario_day))) scenario_stream = [hi_message]"
  by (simp add: scenario_stream_def scenario_passes)

text \<open>
  C1. A fetch returns only messages whose UTC calendar date is in the window, under the
  inclusive test (from absent or date \<open>\<ge>\<close> from) and (to absent or date \<open>\<le>\<close> to): whenever
  the source yields the stream, both fetches (api.py and cmd.py) return the entries of a
  list \<open>kept\<close> of messages of the stream, each with a UTC date in the window, so between
  the two bounds when both are present; a message of the stream with a timestamp and a
  text is among them exactly when its date passes the test; and with both bounds absent
  every such message is.
\<close>

theorem fetch_only_in_window:
  assumes "source_yields env username stream"
  shows "\<exists>kept.
      download_chat_messages env username token_name from_date to_date
        = Inr (fetch_result token_name (map entry_of kept))
    \<and> download_chat_messages_cmd env username from_date to_date = Inr (PList (map entry_of kept))
    \<and> (\<forall>m \<in> set kept. m \<in> set stream \<and>
          (\<exists>day. utc_date m = Some day \<and> in_window (window_of from_date to_date) day
             \<and> (\<forall>f. from_date = Some f \<longrightarrow> date_of f \<le> day)
             \<and> (\<forall>t. to_date = Some t \<longrightarrow> day \<le> date_of t)))
    \<and> (\<forall>m \<in> set stream. \<forall>day. utc_date m = Some day \<and> has_text m \<longrightarrow>
          (m \<in> set kept \<longleftrightarrow>
             (from_date = None \<or> day \<ge> date_of (the from_date)) \<and>
             (to_date = None \<or> day \<le> date_of (the to_date))))
    \<and> (from_date = None \<and> to_date = None \<longrightarrow>
          (\<forall>m \<in> set stream. utc_date m \<noteq> None \<and> has_text m \<longrightarrow> m \<in> set kept))"
proof -
  let ?W = "window_of from_date to_date"
  let ?kept = "filter (passes ?W) stream"
  have a: "\<forall>m \<in> set ?kept. m \<in> set stream \<and>
          (\<exists>day. utc_date m = Some day \<and> in_window ?W day
             \<and> (\<forall>f. from_date = Some f \<longrightarrow> date_of f \<le> day)
             \<and> (\<forall>t. to_date = Some t \<longrightarrow> day \<le> date_of t))"
    by (auto simp: passes_def in_window_def window_of_def split: option.splits)
  have b: "\<forall>m \<in> set stream. \<forall>day. utc_date m = Some day \<and> has_text m \<longrightarrow>
          (m \<in> set ?kept \<longleftrightarrow>
             (from_date = None \<or> day \<ge> date_of (the from_date)) \<and>
             (to_date = None \<or> day \<le> date_of (the to_date)))"
    by (auto simp: passes_iff)
  have c: "from_date = None \<and> to_date = None \<longrightarrow>
          (\<forall>m \<in> set stream. utc_date m \<noteq> None \<and> has_text m \<longrightarrow> m \<in> set ?kept)"
    by (auto simp: passes_iff)
  show ?thesis
    using download_yields [OF assms, of token_name from_date to_date]
      download_cmd_yields [OF assms, of from_date to_date] a b c
    by blast
qed

theorem fetch_only_in_window_witness:
  "source_yields scenario_env ''channelX'' scenario_stream \<and>
   (\<exists>kept.
      download_chat_messages scenario_env ''channelX'' ''Token_channelX''
          (Some scenario_day) (Some scenario_day)
        = Inr (fetch_result ''Token_channelX'' (map entry_of kept))
    \<and> (\<forall>m \<in> set kept. m \<in> set scenario_stream \<and>
          (\<exists>day. utc_date m = Some day
             \<and> date_of scenario_day \<le> day \<and> day \<le> date_of scenario_day)))"
proof -
  from fetch_only_in_window [OF scenario_yields, of "''Token_channelX''"
      "Some scenario_day" "Some scenario_day"]
  obtain kept where
    k: "download_chat_messages scenario_env ''channelX'' ''Token_channelX''
          (Some scenario_day) (Some scenario_day)
        = Inr (fetch_result ''Token_channelX'' (map entry_of kept))"
       "\<forall>m \<in> set kept. m \<in> set scenario_stream \<and>
          (\<exists>day. utc_date m = Some day
             \<and> in_window (window_of (Some scenario_day) (Some scenario_day)) day
             \<and> (\<forall>f. Some scenario_day = Some f \<longrightarrow> date_of f \<le> day)
             \<and> (\<forall>t. Some scenario_day = Some t \<longrightarrow> day \<le> date_of t))"
    by blast
  from k(2) have "\<forall>m \<in> set kept. m \<in> set scenario_stream \<and>
          (\<exists>day. utc_date m = Some day
             \<and> date_of scenario_day \<le> day \<and> day \<le> date_of scenario_day)"
    by blast
  with k(1) scenario_yields show ?thesis
    by blast
qed

text \<open>
  C2. A fetch does not stop at a window bound: it scans the whole stream. Whatever comes
  before a message that passes the filters (a message outside the window, say) and
  whatever comes after it, the result holds the entries of the messages before it that
  pass, then its entry, then the entries of the messages after it that pass.
\<close>

theorem fetch_scans_whole_stream:
  assumes "source_yields env username (before @ m # after)"
    and "passes (window_of from_date to_date) m"
  shows "download_chat_messages env username token_name from_date to_date
           = Inr (fetch_result token_name
                    (map entry_of (filter (passes (window_of from_date to_date)) before)
                     @ entry_of m
                     # map entry_of (filter (passes (window_of from_date to_date)) after)))
       \<and> download_chat_messages_cmd env username from_date to_date
           = Inr (PList
                    (map entry_of (filter (passes (window_of from_date to_date)) before)
                     @ entry_of m
                     # map entry_of (filter (passes (window_of from_date to_date)) after)))"
  using download_yields [OF assms(1), of token_name from_date to_date]
    download_cmd_yields [OF assms(1), of from_date to_date] assms(2)
  by simp

text \<open>In the scenario the message of 2023-12-31, outside the window, comes first.\<close>

theorem fetch_scans_whole_stream_witness:
  "source_yields scenario_env ''channelX'' ([old_message] @ hi_message # [empty_message, undated_message])
   \<and> \<not> passes (window_of (Some scenario_day) (Some scenario_day)) old_message
   \<and> passes (window_of (Some scenario_day) (Some scenario_day)) hi_message
   \<and> download_chat_messages scenario_env ''channelX'' ''Token_channelX''
         (Some scenario_day) (Some scenario_day)
       = Inr (fetch_result ''Token_channelX'' [entry_of hi_message])
   \<and> download_chat_messages_cmd scenario_env ''channelX'' (Some scenario_day) (Some scenario_day)
       = Inr (PList [entry_of hi_message])"
proof -
  have y: "source_yields scenario_env ''channelX''
             ([old_message] @ hi_message # [empty_message, undated_message])"
    using scenario_yields by (simp add: scenario_stream_def)
  show ?thesis
    using fetch_scans_whole_stream [OF y scenario_passes(2), of "''Token_channelX''"] y
    by (simp add: scenario_passes)
qed

text \<open>
  C3. No message without a timestamp and no message whose text is absent or empty
  appears in the result of a fetch: the fetch succeeds, and every message behind an
  entry of the result has a timestamp and a text that is not empty.
\<close>

theorem fetch_drops_undated_and_textless:
  assumes "source_yields env username stream"
  shows "\<exists>kept.
      download_chat_messages env username token_name from_date to_date
        = Inr (fetch_result token_name (map entry_of kept))
    \<and> download_chat_messages_cmd env username from_date to_date = Inr (PList (map entry_of kept))
    \<and> (\<forall>m \<in> set kept. m \<in> set stream \<and>
          (\<exists>d t. msg_date m = Some d \<and> msg_text m = Some t \<and> t \<noteq> []
             \<and> entry_of m = message_dict m d t))
    \<and> (\<forall>m \<in> set stream.
          msg_date m = None \<or> msg_text m = None \<or> msg_text m = Some [] \<longrightarrow> m \<notin> set kept)"
proof -
  let ?W = "window_of from_date to_date"
  let ?kept = "filter (passes ?W) stream"
  have a: "\<forall>m \<in> set ?kept. m \<in> set stream \<and>
          (\<exists>d t. msg_date m = Some d \<and> msg_text m = Some t \<and> t \<noteq> []
             \<and> entry_of m = message_dict m d t)"
    by (auto simp: passes_def utc_date_def has_text_def entry_of_def split: option.splits)
  have b: "\<forall>m \<in> set stream.
          msg_date m = None \<or> msg_text m = None \<or> msg_text m = Some [] \<longrightarrow> m \<notin> set ?kept"
    by (auto simp: passes_def utc_date_def has_text_def split: option.splits)
  show ?thesis
    using download_yields [OF assms, of token_name from_date to_date]
      download_cmd_yields [OF assms, of from_date to_date] a b
    by blast
qed

theorem fetch_drops_undated_and_textless_witness:
  "source_yields scenario_env ''channelX'' scenario_stream \<and>
   empty_message \<in> set scenario_stream \<and> undated_message \<in> set scenario_stream \<and>
   (\<exists>kept.
      download_chat_messages scenario_env ''channelX'' ''Token_channelX'' None None
        = Inr (fetch_result ''Token_channelX'' (map entry_of kept))
    \<and> empty_message \<notin> set kept \<and> undated_message \<notin> set kept)"
proof -
  have e: "msg_text empty_message = Some []" "msg_date undated_message = None"
    by (simp_all add: empty_message_def undated_message_def)
  have s: "empty_message \<in> set scenario_stream" "undated_message \<in> set scenario_stream"
    by (simp_all add: scenario_stream_def)
  from fetch_drops_undated_and_textless [OF scenario_yields, of "''Token_channelX''" None None]
  obtain kept where
    k: "download_chat_messages scenario_env ''channelX'' ''Token_channelX'' None None
          = Inr (fetch_result ''Token_channelX'' (map entry_of kept))"
       "\<forall>m \<in> set scenario_stream.
          msg_date m = None \<or> msg_text m = None \<or> msg_text m = Some [] \<longrightarrow> m \<notin> set kept"
    by blast
  from k(2) e s have "empty_message \<notin> set kept" "undated_message \<notin> set kept"
    by blast+
  with k(1) s scenario_yields show ?thesis
    by blast
qed

text \<open>
  C10. A fetch keeps the order of the stream: the messages of its result are the entries
  of exactly the messages of the stream that pass the filters (timestamp, window, text),
  in the order the source yielded them; this list is a subsequence of the stream.
\<close>

theorem fetch_preserves_order:
  assumes "source_yields env username stream"
  shows "download_chat_messages env username token_name from_date to_date
           = Inr (fetch_result token_name
                    (map entry_of (filter (passes (window_of from_date to_date)) stream)))
       \<and> download_chat_messages_cmd env username from_date to_date
           = Inr (PList (map entry_of (filter (passes (window_of from_date to_date)) stream)))
       \<and> subseq (filter (passes (window_of from_date to_date)) stream) stream"
  using download_yields [OF assms] download_cmd_yields [OF assms] by simp

theorem fetch_preserves_order_witness:
  "source_yields scenario_env ''channelX'' scenario_stream
   \<and> download_chat_messages scenario_env ''channelX'' ''Token_channelX'' None None
       = Inr (fetch_result ''Token_channelX'' [entry_of old_message, entry_of hi_message])
   \<and> download_chat_messages_cmd scenario_env ''channelX'' None None
       = Inr (PList [entry_of old_message, entry_of hi_message])"
proof -
  have p: "filter (passes (window_of None None)) scenario_stream = [old_message, hi_message]"
    by (simp add: scenario_stream_def passes_def utc_date_def in_window_def window_of_def
          has_text_def old_message_def hi_message_def empty_message_def undated_message_def)
  show ?thesis
    using fetch_preserves_order [OF scenario_yields, of "''Token_channelX''" None None]
      scenario_yields
    by (simp add: p)
qed

section \<open>The loop over the channels (api.py)\<close>



lemma loop_acc:
  "process_messages_file_loop envs fd td i usernames acc w
     = (acc @ fst (process_messages_file_loop envs fd td i usernames [] w),
        snd (process_messages_file_loop envs fd td i usernames [] w))"
proof (induction usernames arbitrary: i acc w)
  case Nil
  show ?case by simp
next
  case (Cons u us)
  obtain entry w' where st: "process_messages_file_step (envs i) fd td u w = (entry, w')"
    by (cases "process_messages_file_step (envs i) fd td u w")
  show ?case
    using Cons.IH [of "Suc i" "acc @ [entry]" w'] Cons.IH [of "Suc i" "[entry]" w'] st
    by simp
qed

lemma loop_Cons:
  "fst (process_messages_file_loop envs fd td i (u # us) [] w)
     = fst (process_messages_file_step (envs i) fd td u w)
       # fst (process_messages_file_loop envs fd td (Suc i) us []
                (snd (process_messages_file_step (envs i) fd td u w)))"
  by (cases "process_messages_file_step (envs i) fd td u w")
     (simp add: loop_acc [of envs fd td "Suc i" us "[_]"])









text \<open>
  The loop of api_time.py has the same shape: one outcome per identifier, in order; each
  is a failure, and the job never reaches the loop.
\<close>

lemma process_messages_daily_loop_outcomes:
  "process_messages_daily_loop usernames result_summary
     = result_summary
       @ map (\<lambda>username. failed_entry (strip username) (name_error ''download_chat_messages''))
           usernames"
  by (induction usernames arbitrary: result_summary) simp_all

lemma process_messages_daily_fails: "process_messages_daily readlines \<noteq> None"
  by (simp add: process_messages_daily_def split: sum.splits)


lemma fetch_result_count:
  "py_getitem (fetch_result token_name messages) ''message_count'' = Inr (PInt (int (length messages)))"
  "py_getitem (fetch_result token_name messages) ''messages'' = Inr (PList messages)"
  by (simp_all add: fetch_result_def py_getitem_def)

lemma download_cases:
  "download_chat_messages env username token_name fd td = Inr result \<Longrightarrow>
     \<exists>messages. try_download env username fd td = Inr messages \<and> result = fetch_result token_name messages"
  by (auto simp: download_chat_messages_def fetch_result_def split: sum.splits exn.splits)

lemma step_no_faults:
  assumes "no_faults env (strip username)"
  shows "\<exists>messages.
     download_chat_messages env (strip username) (''Token_'' @ strip username) fd td
       = Inr (fetch_result (''Token_'' @ strip username) messages)
   \<and> process_messages_file_step env fd td username w =
       (PDict [(''username'', PStr (strip username)),
               (''status'', PStr ''success''),
               (''message_count'', PInt (int (length messages))),
               (''s3_file'', PStr (s3_url_of (S3_BUCKET_NAME env) (AWS_REGION env)
                                    (artifact_name (strip username) (now_strftime env))))],
        w\<lparr>files := (files w)(artifact_name (strip username) (now_strftime env)
                      \<mapsto> json_dumps (fetch_result (''Token_'' @ strip username) messages) 4),
          s3_objects := (s3_objects w)
            ((fmt (S3_BUCKET_NAME env), artifact_name (strip username) (now_strftime env))
               \<mapsto> json_dumps (fetch_result (''Token_'' @ strip username) messages) 4)\<rparr>)"
proof -
  from assms obtain stream where y: "source_yields env (strip username) stream"
    by (auto simp: no_faults_def source_yields_def split: sum.splits)
  let ?messages = "map entry_of (filter (passes (window_of fd td)) stream)"
  have d: "download_chat_messages env (strip username) (''Token_'' @ strip username) fd td
             = Inr (fetch_result (''Token_'' @ strip username) ?messages)"
    by (rule download_yields [OF y])
  have "process_messages_file_step env fd td username w =
       (PDict [(''username'', PStr (strip username)),
               (''status'', PStr ''success''),
               (''message_count'', PInt (int (length ?messages))),
               (''s3_file'', PStr (s3_url_of (S3_BUCKET_NAME env) (AWS_REGION env)
                                    (artifact_name (strip username) (now_strftime env))))],
        w\<lparr>files := (files w)(artifact_name (strip username) (now_strftime env)
                      \<mapsto> json_dumps (fetch_result (''Token_'' @ strip username) ?messages) 4),
          s3_objects := (s3_objects w)
            ((fmt (S3_BUCKET_NAME env), artifact_name (strip username) (now_strftime env))
               \<mapsto> json_dumps (fetch_result (''Token_'' @ strip username) ?messages) 4)\<rparr>)"
    using assms d
    by (simp add: process_messages_file_step_def Let_def no_faults_def artifact_name_def
          upload_file_to_s3_def client_upload_file_def fetch_result_count)
  with d show ?thesis by blast
qed

lemma download_unavailable:
  assumes "channel_unavailable env username"
  shows "download_chat_messages env username token_name fd td
           = Inl (HTTPException 404
                   (''Chat '' @ [CHR 0x27] @ username @ [CHR 0x27] @ '' not found or inaccessible.''))"
  using assms
  by (auto simp: channel_unavailable_def download_chat_messages_def try_download_def
        split: sum.splits exn.splits option.splits)

lemma step_download_fails:
  assumes "download_chat_messages env (strip username) (''Token_'' @ strip username) fd td = Inl e"
  shows "process_messages_file_step env fd td username w = (failed_entry (strip username) e, w)"
  using assms by (simp add: process_messages_file_step_def)


lemma step_no_faults_entry:
  assumes "no_faults env (strip username)"
  shows "\<exists>n url. fst (process_messages_file_step env fd td username w) =
       PDict [(''username'', PStr (strip username)), (''status'', PStr ''success''),
              (''message_count'', PInt n), (''s3_file'', PStr url)]"
proof -
  from step_no_faults [OF assms, of fd td w] obtain messages :: "pyval list" where
    "process_messages_file_step env fd td username w =
       (PDict [(''username'', PStr (strip username)),
               (''status'', PStr ''success''),
               (''message_count'', PInt (int (length messages))),
               (''s3_file'', PStr (s3_url_of (S3_BUCKET_NAME env) (AWS_REGION env)
                                    (artifact_name (strip username) (now_strftime env))))],
        w\<lparr>files := (files w)(artifact_name (strip username) (now_strftime env)
                      \<mapsto> json_dumps (fetch_result (''Token_'' @ strip username) messages) 4),
          s3_objects := (s3_objects w)
            ((fmt (S3_BUCKET_NAME env), artifact_name (strip username) (now_strftime env))
               \<mapsto> json_dumps (fetch_result (''Token_'' @ strip username) messages) 4)\<rparr>)"
    by blast
  then have "fst (process_messages_file_step env fd td username w) =
       PDict [(''username'', PStr (strip username)), (''status'', PStr ''success''),
              (''message_count'', PInt (int (length messages))),
              (''s3_file'', PStr (s3_url_of (S3_BUCKET_NAME env) (AWS_REGION env)
                                    (artifact_name (strip username) (now_strftime env))))]"
    by simp
  then show ?thesis by blast
qed

lemma step_unavailable_entry:
  assumes "channel_unavailable env (strip username)"
  shows "fst (process_messages_file_step env fd td username w) =
       PDict [(''username'', PStr (strip username)), (''status'', PStr ''failed''),
              (''error'', PStr (''Chat '' @ [CHR 0x27] @ strip username @ [CHR 0x27]
                                @ '' not found or inaccessible.''))]"
  using step_download_fails [OF download_unavailable [OF assms], of fd td w]
  by (simp add: failed_entry_def)

lemma step_open_fails:
  assumes "download_chat_messages env (strip username) (''Token_'' @ strip username) fd td = Inr result"
    and "open_for_writing env (artifact_name (strip username) (now_strftime env)) = Some e"
  shows "process_messages_file_step env fd td username w = (failed_entry (strip username) e, w)"
  using assms by (simp add: process_messages_file_step_def Let_def artifact_name_def)

lemma step_upload_fails:
  assumes "download_chat_messages env (strip username) (''Token_'' @ strip username) fd td = Inr result"
    and "open_for_writing env (artifact_name (strip username) (now_strftime env)) = None"
    and "create_s3_client env = None"
    and "s3_upload_file env (artifact_name (strip username) (now_strftime env))
           (fmt (S3_BUCKET_NAME env)) (artifact_name (strip username) (now_strftime env)) = Some e"
  shows "fst (process_messages_file_step env fd td username w)
           = failed_entry (strip username)
               (HTTPException 500 (''Failed to upload file to S3: '' @ str_exn e))"
  using assms
  by (simp add: process_messages_file_step_def Let_def artifact_name_def upload_file_to_s3_def
        client_upload_file_def)

lemma failed_entry_status: "status_of (failed_entry username e) = Inr (PStr ''failed'')"
  by (simp add: status_of_def failed_entry_def py_getitem_def)

lemma failed_entry_error:
  "py_getitem (failed_entry username e) ''error''
     = Inr (PStr (case e of HTTPException status_code detail \<Rightarrow> detail | _ \<Rightarrow> str_exn e))"
  by (simp add: failed_entry_def py_getitem_def)

lemma three_channels:
  assumes "no_faults (envs 0) (strip a)" "channel_unavailable (envs 1) (strip b)"
    and "no_faults (envs 2) (strip c)"
  shows "\<exists>count_a url_a count_c url_c.
         fst (process_messages_file_loop envs fd td 0 [a, b, c] [] w) =
           [PDict [(''username'', PStr (strip a)), (''status'', PStr ''success''),
                   (''message_count'', PInt count_a), (''s3_file'', PStr url_a)],
            PDict [(''username'', PStr (strip b)), (''status'', PStr ''failed''),
                   (''error'', PStr (''Chat '' @ [CHR 0x27] @ strip b @ [CHR 0x27]
                                     @ '' not found or inaccessible.''))],
            PDict [(''username'', PStr (strip c)), (''status'', PStr ''success''),
                   (''message_count'', PInt count_c), (''s3_file'', PStr url_c)]]"
proof -
  let ?w1 = "snd (process_messages_file_step (envs 0) fd td a w)"
  let ?w2 = "snd (process_messages_file_step (envs (Suc 0)) fd td b ?w1)"
  have l: "fst (process_messages_file_loop envs fd td 0 [a, b, c] [] w) =
           [fst (process_messages_file_step (envs 0) fd td a w),
            fst (process_messages_file_step (envs (Suc 0)) fd td b ?w1),
            fst (process_messages_file_step (envs (Suc (Suc 0))) fd td c ?w2)]"
    unfolding loop_Cons by simp
  from assms have hb: "channel_unavailable (envs (Suc 0)) (strip b)"
    and hc: "no_faults (envs (Suc (Suc 0))) (strip c)"
    by (simp_all add: numeral_2_eq_2)
  obtain count_a url_a where
    a: "fst (process_messages_file_step (envs 0) fd td a w) =
       PDict [(''username'', PStr (strip a)), (''status'', PStr ''success''),
              (''message_count'', PInt count_a), (''s3_file'', PStr url_a)]"
    using step_no_faults_entry [OF assms(1), of fd td w] by blast
  obtain count_c url_c where
    c: "fst (process_messages_file_step (envs (Suc (Suc 0))) fd td c ?w2) =
       PDict [(''username'', PStr (strip c)), (''status'', PStr ''success''),
              (''message_count'', PInt count_c), (''s3_file'', PStr url_c)]"
    using step_no_faults_entry [OF hc, of fd td ?w2] by blast
  show ?thesis
    unfolding l a c step_unavailable_entry [OF hb] by blast
qed

text \<open>
  C5. A failure of one channel is caught in the loop, recorded as a failed outcome with
  the detail of the error, and the channels after it are processed. Whatever a turn of
  the loop does, the summary is its outcome followed by the outcomes of the rest. When
  the fetch raises, when the archive cannot be opened for writing, or when the upload
  raises, the outcome is a failed entry with the text of the error; in cmd.py the
  exception of a failed fetch is caught by the turn and the world is left as it was.
  For three identifiers of which the second is unavailable (the iteration raises
  \<open>ChatInvalidError\<close>) and the other two have no fault, the summary has three outcomes:
  a success, a failure with the text of the error, and a success.
\<close>

theorem failing_channel_is_recorded_and_skipped:
  "fst (process_messages_file_loop envs fd td i (u # us) [] w)
     = fst (process_messages_file_step (envs i) fd td u w)
       # fst (process_messages_file_loop envs fd td (Suc i) us []
                (snd (process_messages_file_step (envs i) fd td u w)))
   \<and> (download_chat_messages env (strip u) (''Token_'' @ strip u) fd td = Inl e \<longrightarrow>
        process_messages_file_step env fd td u w = (failed_entry (strip u) e, w))
   \<and> (download_chat_messages env (strip u) (''Token_'' @ strip u) fd td = Inr result
        \<and> open_for_writing env (artifact_name (strip u) (now_strftime env)) = Some e \<longrightarrow>
        process_messages_file_step env fd td u w = (failed_entry (strip u) e, w))
   \<and> (download_chat_messages env (strip u) (''Token_'' @ strip u) fd td = Inr result
        \<and> open_for_writing env (artifact_name (strip u) (now_strftime env)) = None
        \<and> create_s3_client env = None
        \<and> s3_upload_file env (artifact_name (strip u) (now_strftime env))
             (fmt (S3_BUCKET_NAME env)) (artifact_name (strip u) (now_strftime env)) = Some e \<longrightarrow>
        fst (process_messages_file_step env fd td u w)
          = failed_entry (strip u)
              (HTTPException 500 (''Failed to upload file to S3: '' @ str_exn e)))
   \<and> status_of (failed_entry (strip u) e) = Inr (PStr ''failed'')
   \<and> py_getitem (failed_entry (strip u) e) ''error''
       = Inr (PStr (case e of HTTPException status_code detail \<Rightarrow> detail | _ \<Rightarrow> str_exn e))
   \<and> (download_chat_messages_cmd env u fd td = Inl e \<longrightarrow>
        process_chats_step env fd td u w = (Some e, w))
   \<and> (no_faults (envs 0) (strip a) \<and> channel_unavailable (envs 1) (strip b)
        \<and> no_faults (envs 2) (strip c) \<longrightarrow>
      (\<exists>count_a url_a count_c url_c.
         fst (process_messages_file_loop envs fd td 0 [a, b, c] [] w) =
           [PDict [(''username'', PStr (strip a)), (''status'', PStr ''success''),
                   (''message_count'', PInt count_a), (''s3_file'', PStr url_a)],
            PDict [(''username'', PStr (strip b)), (''status'', PStr ''failed''),
                   (''error'', PStr (''Chat '' @ [CHR 0x27] @ strip b @ [CHR 0x27]
                                     @ '' not found or inaccessible.''))],
            PDict [(''username'', PStr (strip c)), (''status'', PStr ''success''),
                   (''message_count'', PInt count_c), (''s3_file'', PStr url_c)]]))"
proof (intro conjI impI)
  show "fst (process_messages_file_loop envs fd td i (u # us) [] w)
     = fst (process_messages_file_step (envs i) fd td u w)
       # fst (process_messages_file_loop envs fd td (Suc i) us []
                (snd (process_messages_file_step (envs i) fd td u w)))"
    by (rule loop_Cons)
  show "status_of (failed_entry (strip u) e) = Inr (PStr ''failed'')"
    by (rule failed_entry_status)
  show "py_getitem (failed_entry (strip u) e) ''error''
       = Inr (PStr (case e of HTTPException status_code detail \<Rightarrow> detail | _ \<Rightarrow> str_exn e))"
    by (rule failed_entry_error)
next
  assume "download_chat_messages env (strip u) (''Token_'' @ strip u) fd td = Inl e"
  then show "process_messages_file_step env fd td u w = (failed_entry (strip u) e, w)"
    by (rule step_download_fails)
next
  assume "download_chat_messages env (strip u) (''Token_'' @ strip u) fd td = Inr result
        \<and> open_for_writing env (artifact_name (strip u) (now_strftime env)) = Some e"
  then show "process_messages_file_step env fd td u w = (failed_entry (strip u) e, w)"
    using step_open_fails [of env u fd td result e w] by blast
next
  assume "download_chat_messages env (strip u) (''Token_'' @ strip u) fd td = Inr result
        \<and> open_for_writing env (artifact_name (strip u) (now_strftime env)) = None
        \<and> create_s3_client env = None
        \<and> s3_upload_file env (artifact_name (strip u) (now_strftime env))
             (fmt (S3_BUCKET_NAME env)) (artifact_name (strip u) (now_strftime env)) = Some e"
  then show "fst (process_messages_file_step env fd td u w)
          = failed_entry (strip u)
              (HTTPException 500 (''Failed to upload file to S3: '' @ str_exn e))"
    using step_upload_fails [of env u fd td result e w] by blast
next
  assume "download_chat_messages_cmd env u fd td = Inl e"
  then show "process_chats_step env fd td u w = (Some e, w)"
    by (simp add: process_chats_step_def)
next
  assume "no_faults (envs 0) (strip a) \<and> channel_unavailable (envs 1) (strip b)
        \<and> no_faults (envs 2) (strip c)"
  then show "\<exists>count_a url_a count_c url_c.
         fst (process_messages_file_loop envs fd td 0 [a, b, c] [] w) =
           [PDict [(''username'', PStr (strip a)), (''status'', PStr ''success''),
                   (''message_count'', PInt count_a), (''s3_file'', PStr url_a)],
            PDict [(''username'', PStr (strip b)), (''status'', PStr ''failed''),
                   (''error'', PStr (''Chat '' @ [CHR 0x27] @ strip b @ [CHR 0x27]
                                     @ '' not found or inaccessible.''))],
            PDict [(''username'', PStr (strip c)), (''status'', PStr ''success''),
                   (''message_count'', PInt count_c), (''s3_file'', PStr url_c)]]"
    using three_channels [of envs a b c fd td w] by blast
qed

lemma strip_ABC: "strip ''A'' = ''A''" "strip ''B'' = ''B''" "strip ''C'' = ''C''"
  by (simp_all add: strip_def isspace_def)

lemma scenario_no_faults: "no_faults scenario_env ''A''" "no_faults scenario_env ''C''"
  by (simp_all add: no_faults_def scenario_env_def)

lemma scenario_unavailable: "channel_unavailable scenario_env ''B''"
  by (simp add: channel_unavailable_def scenario_env_def)

lemma full_disk_download:
  "download_chat_messages full_disk_env ''A'' (''Token_'' @ ''A'') None None
     = Inr (fetch_result (''Token_'' @ ''A'')
              (map entry_of (filter (passes (window_of None None)) scenario_stream)))"
  by (rule download_yields) (simp add: source_yields_def full_disk_env_def scenario_env_def)

lemma offline_s3_download:
  "download_chat_messages offline_s3_env ''A'' (''Token_'' @ ''A'') None None
     = Inr (fetch_result (''Token_'' @ ''A'')
              (map entry_of (filter (passes (window_of None None)) scenario_stream)))"
  by (rule download_yields) (simp add: source_yields_def offline_s3_env_def scenario_env_def)

theorem failing_channel_is_recorded_and_skipped_witness:
  "download_chat_messages scenario_env ''B'' (''Token_'' @ ''B'') None None
     = Inl (HTTPException 404 (''Chat '' @ [CHR 0x27] @ ''B'' @ [CHR 0x27] @ '' not found or inaccessible.''))
   \<and> process_messages_file_step scenario_env None None ''B'' empty_world
       = (failed_entry ''B''
            (HTTPException 404 (''Chat '' @ [CHR 0x27] @ ''B'' @ [CHR 0x27] @ '' not found or inaccessible.'')),
          empty_world)
   \<and> open_for_writing full_disk_env (artifact_name ''A'' (now_strftime full_disk_env))
       = Some (PyException ''[Errno 28] No space left on device'')
   \<and> process_messages_file_step full_disk_env None None ''A'' empty_world
       = (failed_entry ''A'' (PyException ''[Errno 28] No space left on device''), empty_world)
   \<and> s3_upload_file offline_s3_env (artifact_name ''A'' (now_strftime offline_s3_env))
        (fmt (S3_BUCKET_NAME offline_s3_env)) (artifact_name ''A'' (now_strftime offline_s3_env))
       = Some (PyException ''Could not connect to the endpoint URL'')
   \<and> fst (process_messages_file_step offline_s3_env None None ''A'' empty_world)
       = failed_entry ''A''
           (HTTPException 500 (''Failed to upload file to S3: ''
              @ str_exn (PyException ''Could not connect to the endpoint URL'')))
   \<and> download_chat_messages_cmd scenario_env ''B'' None None
       = Inl (PyException (''Chat '' @ [CHR 0x27] @ ''B'' @ [CHR 0x27] @ '' not found or inaccessible.''))
   \<and> process_chats_step scenario_env None None ''B'' empty_world
       = (Some (PyException (''Chat '' @ [CHR 0x27] @ ''B'' @ [CHR 0x27] @ '' not found or inaccessible.'')),
          empty_world)
   \<and> no_faults scenario_env ''A'' \<and> channel_unavailable scenario_env ''B''
   \<and> no_faults scenario_env ''C''
   \<and> (\<exists>count_a url_a count_c url_c.
         fst (process_messages_file_loop (\<lambda>i. scenario_env) None None 0 [''A'', ''B'', ''C''] []
                empty_world) =
           [PDict [(''username'', PStr ''A''), (''status'', PStr ''success''),
                   (''message_count'', PInt count_a), (''s3_file'', PStr url_a)],
            PDict [(''username'', PStr ''B''), (''status'', PStr ''failed''),
                   (''error'', PStr (''Chat '' @ [CHR 0x27] @ ''B'' @ [CHR 0x27]
                                     @ '' not found or inaccessible.''))],
            PDict [(''username'', PStr ''C''), (''status'', PStr ''success''),
                   (''message_count'', PInt count_c), (''s3_file'', PStr url_c)]])"
proof -
  let ?e = "HTTPException 404 (''Chat '' @ [CHR 0x27] @ ''B'' @ [CHR 0x27] @ '' not found or inaccessible.'')"
  let ?c = "PyException (''Chat '' @ [CHR 0x27] @ ''B'' @ [CHR 0x27] @ '' not found or inaccessible.'')"
  let ?disk = "PyException ''[Errno 28] No space left on device''"
  let ?net = "PyException ''Could not connect to the endpoint URL''"
  let ?r = "fetch_result (''Token_'' @ ''A'')
              (map entry_of (filter (passes (window_of None None)) scenario_stream))"
  have d: "download_chat_messages scenario_env ''B'' (''Token_'' @ ''B'') None None = Inl ?e"
    by (rule download_unavailable [OF scenario_unavailable])
  have s1: "process_messages_file_step scenario_env None None ''B'' empty_world
       = (failed_entry ''B'' ?e, empty_world)"
    by (rule failing_channel_is_recorded_and_skipped
      [where env = scenario_env and u = "''B''" and fd = None and td = None
         and e = ?e and w = empty_world,
       THEN conjunct2, THEN conjunct1, unfolded strip_ABC, THEN mp, OF d])
  have o: "open_for_writing full_disk_env (artifact_name ''A'' (now_strftime full_disk_env)) = Some ?disk"
    by (simp add: full_disk_env_def)
  have s2: "process_messages_file_step full_disk_env None None ''A'' empty_world
       = (failed_entry ''A'' ?disk, empty_world)"
    by (rule failing_channel_is_recorded_and_skipped
      [where env = full_disk_env and u = "''A''" and fd = None and td = None
         and e = ?disk and w = empty_world and result = ?r,
       THEN conjunct2, THEN conjunct2, THEN conjunct1, unfolded strip_ABC, THEN mp])
       (intro conjI full_disk_download o)
  have n: "open_for_writing offline_s3_env (artifact_name ''A'' (now_strftime offline_s3_env)) = None"
     "create_s3_client offline_s3_env = None"
    by (simp_all add: offline_s3_env_def scenario_env_def)
  have up: "s3_upload_file offline_s3_env (artifact_name ''A'' (now_strftime offline_s3_env))
        (fmt (S3_BUCKET_NAME offline_s3_env)) (artifact_name ''A'' (now_strftime offline_s3_env))
       = Some ?net"
    by (simp add: offline_s3_env_def)
  have s3: "fst (process_messages_file_step offline_s3_env None None ''A'' empty_world)
       = failed_entry ''A'' (HTTPException 500 (''Failed to upload file to S3: '' @ str_exn ?net))"
    by (rule failing_channel_is_recorded_and_skipped
      [where env = offline_s3_env and u = "''A''" and fd = None and td = None
         and e = ?net and w = empty_world and result = ?r,
       THEN conjunct2, THEN conjunct2, THEN conjunct2, THEN conjunct1, unfolded strip_ABC, THEN mp])
       (intro conjI offline_s3_download n up)
  have dc: "download_chat_messages_cmd scenario_env ''B'' None None = Inl ?c"
    by (simp add: download_chat_messages_cmd_def try_download_def scenario_env_def)
  have s4: "process_chats_step scenario_env None None ''B'' empty_world = (Some ?c, empty_world)"
    by (rule failing_channel_is_recorded_and_skipped
      [where env = scenario_env and u = "''B''" and fd = None and td = None
         and e = ?c and w = empty_world,
       THEN conjunct2, THEN conjunct2, THEN conjunct2, THEN conjunct2, THEN conjunct2,
       THEN conjunct2, THEN conjunct1, THEN mp, OF dc])
  have h: "no_faults scenario_env ''A'' \<and> channel_unavailable scenario_env ''B''
        \<and> no_faults scenario_env ''C''"
    by (intro conjI scenario_no_faults scenario_unavailable)
  have t: "\<exists>count_a url_a count_c url_c.
         fst (process_messages_file_loop (\<lambda>i. scenario_env) None None 0 [''A'', ''B'', ''C''] []
                empty_world) =
           [PDict [(''username'', PStr ''A''), (''status'', PStr ''success''),
                   (''message_count'', PInt count_a), (''s3_file'', PStr url_a)],
            PDict [(''username'', PStr ''B''), (''status'', PStr ''failed''),
                   (''error'', PStr (''Chat '' @ [CHR 0x27] @ ''B'' @ [CHR 0x27]
                                     @ '' not found or inaccessible.''))],
            PDict [(''username'', PStr ''C''), (''status'', PStr ''success''),
                   (''message_count'', PInt count_c), (''s3_file'', PStr url_c)]]"
    by (rule failing_channel_is_recorded_and_skipped
      [where envs = "\<lambda>i. scenario_env" and fd = None and td = None and w = empty_world
         and a = "''A''" and b = "''B''" and c = "''C''",
       THEN conjunct2, THEN conjunct2, THEN conjunct2, THEN conjunct2, THEN conjunct2,
       THEN conjunct2, THEN conjunct2, unfolded strip_ABC, THEN mp, OF h])
  from h have h1: "no_faults scenario_env ''A''" and h2: "channel_unavailable scenario_env ''B''"
    and h3: "no_faults scenario_env ''C''"
    by blast+
  from d s1 o s2 up s3 dc s4 h1 h2 h3 t show ?thesis
    by (intro conjI)
qed

section \<open>The archives\<close>

lemma step_cases:
  "process_messages_file_step env fd td username w = (entry, w') \<Longrightarrow>
   (\<exists>e. entry = failed_entry (strip username) e \<and> w' = w)
   \<or> (\<exists>e messages.
         try_download env (strip username) fd td = Inr messages
       \<and> entry = failed_entry (strip username) e
       \<and> w' = w\<lparr>files := (files w)(artifact_name (strip username) (now_strftime env)
                      \<mapsto> json_dumps (fetch_result (''Token_'' @ strip username) messages) 4)\<rparr>)
   \<or> (\<exists>messages.
         try_download env (strip username) fd td = Inr messages
       \<and> entry = PDict [(''username'', PStr (strip username)),
               (''status'', PStr ''success''),
               (''message_count'', PInt (int (length messages))),
               (''s3_file'', PStr (s3_url_of (S3_BUCKET_NAME env) (AWS_REGION env)
                                    (artifact_name (strip username) (now_strftime env))))]
       \<and> w' = w\<lparr>files := (files w)(artifact_name (strip username) (now_strftime env)
                      \<mapsto> json_dumps (fetch_result (''Token_'' @ strip username) messages) 4),
          s3_objects := (s3_objects w)
            ((fmt (S3_BUCKET_NAME env), artifact_name (strip username) (now_strftime env))
               \<mapsto> json_dumps (fetch_result (''Token_'' @ strip username) messages) 4)\<rparr>)"
proof (cases "download_chat_messages env (strip username) (''Token_'' @ strip username) fd td")
  case (Inl e)
  assume "process_messages_file_step env fd td username w = (entry, w')"
  with step_download_fails [OF Inl, of w] show ?thesis by auto
next
  case (Inr result)
  assume s: "process_messages_file_step env fd td username w = (entry, w')"
  from download_cases [OF Inr] obtain messages where
    m: "try_download env (strip username) fd td = Inr messages"
       "result = fetch_result (''Token_'' @ strip username) messages"
    by blast
  let ?name = "artifact_name (strip username) (now_strftime env)"
  let ?w1 = "w\<lparr>files := (files w)(?name \<mapsto> json_dumps result 4)\<rparr>"
  have unf: "process_messages_file_step env fd td username w =
      (case open_for_writing env ?name of
         Some e \<Rightarrow> (failed_entry (strip username) e, w)
       | None \<Rightarrow>
          (case upload_file_to_s3 env (S3_BUCKET_NAME env) ?name ?name ?w1 of
             (Inl e, w2) \<Rightarrow> (failed_entry (strip username) e, w2)
           | (Inr u, w2) \<Rightarrow>
               (PDict [(''username'', PStr (strip username)),
                       (''status'', PStr ''success''),
                       (''message_count'', PInt (int (length messages))),
                       (''s3_file'', PStr (s3_url_of (S3_BUCKET_NAME env) (AWS_REGION env) ?name))], w2)))"
    using Inr m(2)
    by (simp add: process_messages_file_step_def Let_def artifact_name_def fetch_result_count
          split: option.splits prod.splits sum.splits)
  have up: "upload_file_to_s3 env (S3_BUCKET_NAME env) ?name ?name ?w1 = (r, w2) \<Longrightarrow>
      (\<exists>e. r = Inl e \<and> w2 = ?w1)
      \<or> (\<exists>u. r = Inr u \<and> w2 = ?w1\<lparr>s3_objects := (s3_objects ?w1)
               ((fmt (S3_BUCKET_NAME env), ?name) \<mapsto> json_dumps result 4)\<rparr>)" for r w2
    by (auto simp: upload_file_to_s3_def client_upload_file_def split: option.splits sum.splits)
  show ?thesis
  proof (cases "open_for_writing env ?name")
    case (Some e)
    with s unf show ?thesis by auto
  next
    case None
    obtain r w2 where u: "upload_file_to_s3 env (S3_BUCKET_NAME env) ?name ?name ?w1 = (r, w2)"
      by (cases "upload_file_to_s3 env (S3_BUCKET_NAME env) ?name ?name ?w1")
    from up [OF u] show ?thesis
    proof
      assume "\<exists>e. r = Inl e \<and> w2 = ?w1"
      then obtain e where "r = Inl e" "w2 = ?w1" by blast
      with s unf None u m have "try_download env (strip username) fd td = Inr messages
       \<and> entry = failed_entry (strip username) e
       \<and> w' = w\<lparr>files := (files w)(?name
                      \<mapsto> json_dumps (fetch_result (''Token_'' @ strip username) messages) 4)\<rparr>"
        by simp
      then show ?thesis by blast
    next
      assume "\<exists>u. r = Inr u \<and> w2 = ?w1\<lparr>s3_objects := (s3_objects ?w1)
               ((fmt (S3_BUCKET_NAME env), ?name) \<mapsto> json_dumps result 4)\<rparr>"
      then obtain u' where "r = Inr u'" "w2 = ?w1\<lparr>s3_objects := (s3_objects ?w1)
               ((fmt (S3_BUCKET_NAME env), ?name) \<mapsto> json_dumps result 4)\<rparr>" by blast
      with s unf None u m have "try_download env (strip username) fd td = Inr messages
       \<and> entry = PDict [(''username'', PStr (strip username)),
               (''status'', PStr ''success''),
               (''message_count'', PInt (int (length messages))),
               (''s3_file'', PStr (s3_url_of (S3_BUCKET_NAME env) (AWS_REGION env) ?name))]
       \<and> w' = w\<lparr>files := (files w)(?name
                      \<mapsto> json_dumps (fetch_result (''Token_'' @ strip username) messages) 4),
          s3_objects := (s3_objects w)
            ((fmt (S3_BUCKET_NAME env), ?name)
               \<mapsto> json_dumps (fetch_result (''Token_'' @ strip username) messages) 4)\<rparr>"
        by simp
      then show ?thesis by blast
    qed
  qed
qed


text \<open>
  C9. In the result of a fetch \<open>message_count\<close> is the length of \<open>messages\<close>; and the
  \<open>message_count\<close> of a successful outcome is the number of messages of the result that
  was serialised into the channel's archive, locally and in S3.
\<close>

theorem message_count_is_number_of_messages:
  "(download_chat_messages env username token_name fd td = Inr result \<longrightarrow>
      (\<exists>messages. py_getitem result ''messages'' = Inr (PList messages)
         \<and> py_getitem result ''message_count'' = Inr (PInt (int (length messages)))))
   \<and> (process_messages_file_step env fd td username w = (entry, w')
        \<and> status_of entry = Inr (PStr ''success'') \<longrightarrow>
      (\<exists>result messages.
          download_chat_messages env (strip username) (''Token_'' @ strip username) fd td = Inr result
        \<and> py_getitem result ''messages'' = Inr (PList messages)
        \<and> files w' (artifact_name (strip username) (now_strftime env)) = Some (json_dumps result 4)
        \<and> s3_objects w' (fmt (S3_BUCKET_NAME env), artifact_name (strip username) (now_strftime env))
            = Some (json_dumps result 4)
        \<and> py_getitem entry ''message_count'' = Inr (PInt (int (length messages)))))"
proof (intro conjI impI)
  assume "download_chat_messages env username token_name fd td = Inr result"
  from download_cases [OF this] show "\<exists>messages. py_getitem result ''messages'' = Inr (PList messages)
         \<and> py_getitem result ''message_count'' = Inr (PInt (int (length messages)))"
    by (auto simp: fetch_result_count)
next
  assume a: "process_messages_file_step env fd td username w = (entry, w')
        \<and> status_of entry = Inr (PStr ''success'')"
  let ?name = "artifact_name (strip username) (now_strftime env)"
  let ?token = "''Token_'' @ strip username"
  from a have "status_of entry \<noteq> Inr (PStr ''failed'')" by simp
  with step_cases [of env fd td username w entry w'] a failed_entry_status
  obtain messages where
    m: "try_download env (strip username) fd td = Inr messages"
       "entry = PDict [(''username'', PStr (strip username)),
               (''status'', PStr ''success''),
               (''message_count'', PInt (int (length messages))),
               (''s3_file'', PStr (s3_url_of (S3_BUCKET_NAME env) (AWS_REGION env) ?name))]"
       "w' = w\<lparr>files := (files w)(?name \<mapsto> json_dumps (fetch_result ?token messages) 4),
          s3_objects := (s3_objects w)
            ((fmt (S3_BUCKET_NAME env), ?name) \<mapsto> json_dumps (fetch_result ?token messages) 4)\<rparr>"
    by metis
  have d: "download_chat_messages env (strip username) ?token fd td = Inr (fetch_result ?token messages)"
    using m(1) by (simp add: download_chat_messages_def fetch_result_def)
  have "download_chat_messages env (strip username) ?token fd td = Inr (fetch_result ?token messages)
        \<and> py_getitem (fetch_result ?token messages) ''messages'' = Inr (PList messages)
        \<and> files w' ?name = Some (json_dumps (fetch_result ?token messages) 4)
        \<and> s3_objects w' (fmt (S3_BUCKET_NAME env), ?name)
            = Some (json_dumps (fetch_result ?token messages) 4)
        \<and> py_getitem entry ''message_count'' = Inr (PInt (int (length messages)))"
  proof (intro conjI)
    show "py_getitem entry ''message_count'' = Inr (PInt (int (length messages)))"
      unfolding m(2) by (simp add: py_getitem_def)
  qed (use d m(3) in \<open>simp_all add: fetch_result_count\<close>)
  then show "\<exists>result messages.
          download_chat_messages env (strip username) ?token fd td = Inr result
        \<and> py_getitem result ''messages'' = Inr (PList messages)
        \<and> files w' ?name = Some (json_dumps result 4)
        \<and> s3_objects w' (fmt (S3_BUCKET_NAME env), ?name) = Some (json_dumps result 4)
        \<and> py_getitem entry ''message_count'' = Inr (PInt (int (length messages)))"
    by blast
qed

lemma message_dict_entry: "is_message_entry (message_dict m d t)"
  by (cases "msg_sender_id m")
     (simp_all add: is_message_entry_def message_dict_def conforms_def is_str_def is_int_def
        is_int_or_null_def)

lemma passes_entry: "passes W m \<Longrightarrow> is_message_entry (entry_of m)"
  by (auto simp: passes_def utc_date_def has_text_def entry_of_def message_dict_entry
        split: option.splits)

lemma iter_loop_entries: "list_all is_message_entry (iter_loop fd td stream [])"
  by (auto simp: iter_loop_filter list_all_iff passes_entry)

lemma try_download_entries:
  "try_download env username fd td = Inr messages \<Longrightarrow> list_all is_message_entry messages"
  by (auto simp: try_download_def iter_loop_entries split: option.splits sum.splits if_splits)



lemma message_list_bracket:
  "is_message_list doc \<Longrightarrow> hd (json_dumps doc 4) = CHR ''[''"
  by (cases doc) (auto simp: is_message_list_def json_dumps_def)



lemma scenario_env_sel:
  "client_is_connected scenario_env = False"
  "client_start scenario_env = None"
  "create_s3_client scenario_env = None"
  "s3_upload_file scenario_env = (\<lambda>file_path bucket key. None)"
  "open_for_writing scenario_env = (\<lambda>filename. None)"
  "now_strftime scenario_env = ''2024_01_02''"
  "AWS_REGION scenario_env = Some ''eu-west-1''"
  "S3_BUCKET_NAME scenario_env = Some ''archive''"
  by (simp_all add: scenario_env_def)

lemma scenario_download_cmd:
  "download_chat_messages_cmd scenario_env ''channelX'' (Some scenario_day) (Some scenario_day)
     = Inr (PList [entry_of hi_message])"
  using download_cmd_yields [OF scenario_yields, of "Some scenario_day" "Some scenario_day"]
  by (simp only: scenario_kept list.map)



lemma strip_channelX: "strip ''channelX'' = ''channelX''"
  by (simp add: strip_def isspace_def)

lemma scenario_download:
  "download_chat_messages scenario_env ''channelX'' ''Token_channelX''
     (Some scenario_day) (Some scenario_day) = Inr scenario_result"
  using download_yields [OF scenario_yields, of "''Token_channelX''" "Some scenario_day" "Some scenario_day"]
  by (simp only: scenario_kept list.map scenario_result_def)

lemma scenario_step:
  "process_messages_file_step scenario_env (Some scenario_day) (Some scenario_day) ''channelX''
     empty_world = (scenario_entry, scenario_world)"
proof -
  have c: "py_getitem scenario_result ''message_count'' = Inr (PInt 1)"
    by (simp add: scenario_result_def fetch_result_count)
  show ?thesis
    using scenario_download c
    by (simp add: process_messages_file_step_def strip_channelX Let_def scenario_env_sel
        upload_file_to_s3_def client_upload_file_def empty_world_def fmt_def s3_url_of_def
        scenario_entry_def scenario_world_def)
qed

theorem message_count_is_number_of_messages_witness:
  "download_chat_messages scenario_env ''channelX'' ''Token_channelX''
     (Some scenario_day) (Some scenario_day) = Inr scenario_result
   \<and> process_messages_file_step scenario_env (Some scenario_day) (Some scenario_day) ''channelX''
       empty_world = (scenario_entry, scenario_world)
   \<and> status_of scenario_entry = Inr (PStr ''success'')
   \<and> (\<exists>messages. py_getitem scenario_result ''messages'' = Inr (PList messages)
         \<and> py_getitem scenario_result ''message_count'' = Inr (PInt (int (length messages))))
   \<and> (\<exists>result messages.
          download_chat_messages scenario_env ''channelX'' ''Token_channelX''
            (Some scenario_day) (Some scenario_day) = Inr result
        \<and> py_getitem result ''messages'' = Inr (PList messages)
        \<and> files scenario_world ''telegram_channelX_2024_01_02.json'' = Some (json_dumps result 4)
        \<and> s3_objects scenario_world (''archive'', ''telegram_channelX_2024_01_02.json'')
            = Some (json_dumps result 4)
        \<and> py_getitem scenario_entry ''message_count'' = Inr (PInt (int (length messages))))"
proof -
  have st: "status_of scenario_entry = Inr (PStr ''success'')"
    by (simp add: status_of_def scenario_entry_def py_getitem_def)
  note T = message_count_is_number_of_messages
      [where env = scenario_env and username = "''channelX''" and token_name = "''Token_channelX''"
         and fd = "Some scenario_day" and td = "Some scenario_day" and result = scenario_result
         and w = empty_world and entry = scenario_entry and w' = scenario_world]
  have a: "\<exists>messages. py_getitem scenario_result ''messages'' = Inr (PList messages)
         \<and> py_getitem scenario_result ''message_count'' = Inr (PInt (int (length messages)))"
    by (rule T [THEN conjunct1, THEN mp]) (rule scenario_download)
  have "\<exists>result messages.
          download_chat_messages scenario_env (strip ''channelX'') (''Token_'' @ strip ''channelX'')
            (Some scenario_day) (Some scenario_day) = Inr result
        \<and> py_getitem result ''messages'' = Inr (PList messages)
        \<and> files scenario_world (artifact_name (strip ''channelX'') (now_strftime scenario_env))
            = Some (json_dumps result 4)
        \<and> s3_objects scenario_world
             (fmt (S3_BUCKET_NAME scenario_env),
              artifact_name (strip ''channelX'') (now_strftime scenario_env))
            = Some (json_dumps result 4)
        \<and> py_getitem scenario_entry ''message_count'' = Inr (PInt (int (length messages)))"
    by (rule T [THEN conjunct2, THEN mp]) (intro conjI scenario_step st)
  then have b: "\<exists>result messages.
          download_chat_messages scenario_env ''channelX'' ''Token_channelX''
            (Some scenario_day) (Some scenario_day) = Inr result
        \<and> py_getitem result ''messages'' = Inr (PList messages)
        \<and> files scenario_world ''telegram_channelX_2024_01_02.json'' = Some (json_dumps result 4)
        \<and> s3_objects scenario_world (''archive'', ''telegram_channelX_2024_01_02.json'')
            = Some (json_dumps result 4)
        \<and> py_getitem scenario_entry ''message_count'' = Inr (PInt (int (length messages)))"
    by (simp add: strip_channelX scenario_env_sel artifact_name_def fmt_def)
  from scenario_download scenario_step st a b show ?thesis
    by (intro conjI)
qed


section \<open>The date parameters\<close>














section \<open>Serialisation\<close>

text \<open>
  Two message entries, and two results of a fetch, that are equal as Python values are
  the same value, keys in the same order: the program builds them with one fixed order
  of insertion.
\<close>

lemma is_str_shape: "is_str v \<Longrightarrow> \<exists>s. v = PStr s"
  by (cases v) (simp_all add: is_str_def)

lemma is_int_shape: "is_int v \<Longrightarrow> \<exists>i. v = PInt i"
  by (cases v) (simp_all add: is_int_def)

lemma is_int_or_null_shape: "is_int_or_null v \<Longrightarrow> v = PNone \<or> (\<exists>n. v = PInt n)"
  by (cases v) (simp_all add: is_int_or_null_def)

lemma message_entry_shape:
  assumes "is_message_entry v"
  shows "\<exists>d s t i. v = PDict [(''date'', PStr d), (''sender_id'', s), (''message'', PStr t),
                          (''message_id'', PInt i)] \<and> (s = PNone \<or> (\<exists>n. s = PInt n))"
proof -
  from assms obtain items where
    v: "v = PDict items"
    and c: "conforms items [(''date'', is_str), (''sender_id'', is_int_or_null),
                            (''message'', is_str), (''message_id'', is_int)]"
    by (cases v) (simp_all add: is_message_entry_def)
  from c obtain v1 v2 v3 v4 where
    i: "items = [(''date'', v1), (''sender_id'', v2), (''message'', v3), (''message_id'', v4)]"
    and t: "is_str v1" "is_int_or_null v2" "is_str v3" "is_int v4"
    by (auto simp: conforms_def list_all2_Cons2)
  from is_str_shape [OF t(1)] is_int_or_null_shape [OF t(2)] is_str_shape [OF t(3)]
    is_int_shape [OF t(4)] v i
  show ?thesis by blast
qed

lemma message_entry_eq:
  assumes "is_message_entry a" "is_message_entry b" "py_eq a b"
  shows "a = b"
proof -
  from message_entry_shape [OF assms(1)] obtain d s t i where
    a: "a = PDict [(''date'', PStr d), (''sender_id'', s), (''message'', PStr t),
                   (''message_id'', PInt i)]" "s = PNone \<or> (\<exists>n. s = PInt n)"
    by blast
  from message_entry_shape [OF assms(2)] obtain d' s' t' i' where
    b: "b = PDict [(''date'', PStr d'), (''sender_id'', s'), (''message'', PStr t'),
                   (''message_id'', PInt i')]" "s' = PNone \<or> (\<exists>n. s' = PInt n)"
    by blast
  from assms(3) a b show ?thesis
    by auto
qed

lemma message_entries_eq:
  "list_all is_message_entry xs \<Longrightarrow> list_all is_message_entry ys \<Longrightarrow> list_all2 py_eq xs ys
     \<Longrightarrow> xs = ys"
proof (induction xs arbitrary: ys)
  case Nil
  then show ?case by simp
next
  case (Cons x xs)
  then obtain y ys' where y: "ys = y # ys'" "py_eq x y" "list_all2 py_eq xs ys'"
    by (auto simp: list_all2_Cons1)
  with Cons.prems have "is_message_entry x" "is_message_entry y"
    "list_all is_message_entry xs" "list_all is_message_entry ys'"
    by simp_all
  with y Cons.IH [of ys'] message_entry_eq [of x y] show ?case
    by simp
qed

lemma fetch_result_eq:
  assumes "list_all is_message_entry xs" "list_all is_message_entry ys"
    and "py_eq (fetch_result t xs) (fetch_result t' ys)"
  shows "fetch_result t xs = fetch_result t' ys"
proof -
  from assms(3) have "t = t'" "list_all2 py_eq xs ys"
    by (simp_all add: fetch_result_def)
  with message_entries_eq [OF assms(1,2)] show ?thesis
    by simp
qed

text \<open>
  C8. Serialisation is deterministic: two results of a fetch (api.py: the dict; cmd.py:
  the list) that are equal as Python values are serialised, with the indentation 4, to
  the same text; the keys come in the order the program inserts them.
\<close>

theorem serialization_is_deterministic:
  "(download_chat_messages env username token_name fd td = Inr result
      \<and> download_chat_messages env' username' token_name' fd' td' = Inr result'
      \<and> py_eq result result' \<longrightarrow>
    json_dumps result 4 = json_dumps result' 4)
   \<and> (download_chat_messages_cmd env username fd td = Inr messages
      \<and> download_chat_messages_cmd env' username' fd' td' = Inr messages'
      \<and> py_eq messages messages' \<longrightarrow>
    json_dumps messages 4 = json_dumps messages' 4)"
proof (intro conjI impI)
  assume a: "download_chat_messages env username token_name fd td = Inr result
      \<and> download_chat_messages env' username' token_name' fd' td' = Inr result'
      \<and> py_eq result result'"
  from a download_cases [of env username token_name fd td result] obtain xs where
    x: "try_download env username fd td = Inr xs" "result = fetch_result token_name xs"
    by blast
  from a download_cases [of env' username' token_name' fd' td' result'] obtain ys where
    y: "try_download env' username' fd' td' = Inr ys" "result' = fetch_result token_name' ys"
    by blast
  from a x(2) y(2)
    fetch_result_eq [OF try_download_entries [OF x(1)] try_download_entries [OF y(1)]]
  have "result = result'" by simp
  then show "json_dumps result 4 = json_dumps result' 4" by simp
next
  assume a: "download_chat_messages_cmd env username fd td = Inr messages
      \<and> download_chat_messages_cmd env' username' fd' td' = Inr messages'
      \<and> py_eq messages messages'"
  from a obtain xs where
    x: "try_download env username fd td = Inr xs" "messages = PList xs"
    by (auto simp: download_chat_messages_cmd_def split: sum.splits exn.splits)
  from a obtain ys where
    y: "try_download env' username' fd' td' = Inr ys" "messages' = PList ys"
    by (auto simp: download_chat_messages_cmd_def split: sum.splits exn.splits)
  from a x(2) y(2)
    message_entries_eq [OF try_download_entries [OF x(1)] try_download_entries [OF y(1)]]
  have "messages = messages'" by simp
  then show "json_dumps messages 4 = json_dumps messages' 4" by simp
qed

text \<open>The order of the keys matters to the text: equal dicts can serialise differently.\<close>

lemma key_order_matters:
  "py_eq (PDict [(''a'', PInt 1), (''b'', PInt 2)]) (PDict [(''b'', PInt 2), (''a'', PInt 1)])
   \<and> json_dumps (PDict [(''a'', PInt 1), (''b'', PInt 2)]) 4
       \<noteq> json_dumps (PDict [(''b'', PInt 2), (''a'', PInt 1)]) 4"
  by (auto simp: json_dumps_def encode_str_def escape_char_def newline_indent_def)

lemma py_eq_message_entry: "is_message_entry v \<Longrightarrow> py_eq v v"
  by (drule message_entry_shape) auto

theorem serialization_is_deterministic_witness:
  "download_chat_messages scenario_env ''channelX'' ''Token_channelX''
     (Some scenario_day) (Some scenario_day) = Inr scenario_result
   \<and> py_eq scenario_result scenario_result
   \<and> download_chat_messages_cmd scenario_env ''channelX'' (Some scenario_day) (Some scenario_day)
     = Inr (PList [entry_of hi_message])
   \<and> py_eq (PList [entry_of hi_message]) (PList [entry_of hi_message])
   \<and> json_dumps scenario_result 4 = json_dumps scenario_result 4
   \<and> json_dumps (PList [entry_of hi_message]) 4 = json_dumps (PList [entry_of hi_message]) 4"
proof -
  have e: "py_eq (entry_of hi_message) (entry_of hi_message)"
    by (rule py_eq_message_entry [OF passes_entry [OF scenario_passes(2)]])
  then have p: "py_eq scenario_result scenario_result"
    by (simp add: scenario_result_def fetch_result_def)
  from e have q: "py_eq (PList [entry_of hi_message]) (PList [entry_of hi_message])"
    by simp
  note T = serialization_is_deterministic
      [where env = scenario_env and env' = scenario_env
         and username = "''channelX''" and username' = "''channelX''"
         and token_name = "''Token_channelX''" and token_name' = "''Token_channelX''"
         and fd = "Some scenario_day" and td = "Some scenario_day"
         and fd' = "Some scenario_day" and td' = "Some scenario_day"
         and result = scenario_result and result' = scenario_result
         and messages = "PList [entry_of hi_message]" and messages' = "PList [entry_of hi_message]"]
  have a: "json_dumps scenario_result 4 = json_dumps scenario_result 4"
    by (rule T [THEN conjunct1, THEN mp]) (intro conjI scenario_download p)
  have b: "json_dumps (PList [entry_of hi_message]) 4 = json_dumps (PList [entry_of hi_message]) 4"
    by (rule T [THEN conjunct2, THEN mp]) (intro conjI scenario_download_cmd q)
  from scenario_download p scenario_download_cmd q a b show ?thesis
    by (intro conjI)
qed

end
